theory Spec2Isabelle
  imports Main
begin

section \<open>The LTSA REST wrapper (api/main.py)\<close>

text \<open>
  The service writes an FSP specification to a temporary file, runs the external analyzer
  \<^verbatim>\<open>java -jar ltsp.jar <file> <flags>\<close> on it and relays exit status, stdout and stderr.
  Everything the Python code does to the outside world is made explicit here:
  \<^item> the file system is a map from paths to file contents;
  \<^item> each interaction with the outside world (temp file creation, write, log line,
    subprocess run, unlink) is appended to a trace of events, in program order;
  \<^item> what the outside world answers (which temp names are free, whether the write or the
    unlink raises, what the subprocess returns and what it does to the files) is a record
    \<open>env\<close>, over which the theorems quantify;
  \<^item> every \<^verbatim>\<open>raise\<close> is a value of type \<open>failure\<close>.
\<close>

subsection \<open>Data\<close>

type_synonym path = string

type_synonym filesystem = "path \<rightharpoonup> string"

text \<open>
  What \<^verbatim>\<open>subprocess.run(command, capture_output=True, text=True, timeout=t)\<close> can do:
  return a \<^verbatim>\<open>CompletedProcess\<close> (returncode, stdout, stderr), or raise
  \<^verbatim>\<open>TimeoutExpired\<close>, \<^verbatim>\<open>FileNotFoundError\<close>, or any other exception (with its \<^verbatim>\<open>str(e)\<close>).
\<close>

datatype run_outcome =
    Completed int string string
  | TimeoutExpired
  | FileNotFoundError
  | OtherException string

datatype level = INFO | WARNING | ERROR

datatype event =
    TempFileCreated path
  | TempFileWritten path string
  | Logged level string
  | SubprocessRun "string list" nat run_outcome
  | OsUnlink path

record world =
  files :: filesystem
  events :: "event list"

text \<open>
  The answers of the outside world during one request. \<open>temp_candidates\<close> are the names
  (directory, prefix and random part) that \<^verbatim>\<open>tempfile\<close> tries in turn; \<open>write_error\<close> and
  \<open>unlink_error\<close> are \<open>Some msg\<close> when the operation raises (for a reason other than
  a missing file); \<open>subprocess_run\<close> is the behaviour of the spawned process, which sees
  its command line, its timeout and the files, and gives back what \<^verbatim>\<open>subprocess.run\<close> returns
  or raises together with the files as the process leaves them: it may remove or rewrite
  its input and create files of its own.
\<close>

record env =
  temp_candidates :: "string list"
  write_error :: "string option"
  subprocess_run :: "string list \<Rightarrow> nat \<Rightarrow> filesystem \<Rightarrow> run_outcome \<times> filesystem"
  unlink_error :: "string option"

text \<open>\<^verbatim>\<open>class LTSRequest\<close>, \<^verbatim>\<open>class LTLRequest(LTSRequest)\<close>, \<^verbatim>\<open>class LTSResponse\<close>
  (the field \<^verbatim>\<open>output\<close> is written \<open>output'\<close>: the plain name is reserved).\<close>

record LTSRequest =
  content :: string
  process :: "string option"

record LTLRequest = LTSRequest +
  property :: string

record LTSResponse =
  success :: bool
  output' :: string
  error :: "string option"

text \<open>
  A request ends with an \<open>LTSResponse\<close> or with a failure: an \<^verbatim>\<open>HTTPException\<close> raised by the
  handler (status code, detail), an exception that no handler catches, the framework's
  rejection of a body that does not validate, or a path for which this module declares no
  POST handler. In the last case the framework answers by itself (404, 405 for a path that
  only has a GET handler, or a redirect for a stray trailing slash); which of these it is
  is not modelled, only that no handler runs.
\<close>

datatype failure =
    HTTPException nat string
  | UncaughtException string
  | RequestValidationError
  | NoPostHandler

subsection \<open>Library operations\<close>

definition emit :: "event \<Rightarrow> world \<Rightarrow> world" where
  "emit ev w = w\<lparr>events := events w @ [ev]\<rparr>"

text \<open>
  \<^verbatim>\<open>tempfile.NamedTemporaryFile(mode='w', suffix=..., delete=False)\<close>: the first candidate
  name that does not exist yet is created, empty; with no free name the call raises.
\<close>

definition NamedTemporaryFile :: "string \<Rightarrow> env \<Rightarrow> world \<Rightarrow> string + (path \<times> world)" where
  "NamedTemporaryFile suffix e w =
     (case find (\<lambda>n. files w n = None) (map (\<lambda>s. s @ suffix) (temp_candidates e)) of
        None \<Rightarrow> Inl ''[Errno 17] No usable temporary file name found''
      | Some p \<Rightarrow> Inr (p, emit (TempFileCreated p) (w\<lparr>files := (files w)(p \<mapsto> [])\<rparr>)))"

text \<open>\<^verbatim>\<open>temp_file.write(s)\<close> followed by the close at the end of the \<^verbatim>\<open>with\<close> block.\<close>

definition temp_file_write :: "path \<Rightarrow> string \<Rightarrow> env \<Rightarrow> world \<Rightarrow> string + world" where
  "temp_file_write p s e w =
     (case write_error e of
        Some msg \<Rightarrow> Inl msg
      | None \<Rightarrow> Inr (emit (TempFileWritten p s) (w\<lparr>files := (files w)(p \<mapsto> s)\<rparr>)))"

text \<open>
  Whether \<^verbatim>\<open>os.unlink(p)\<close> raises on the file system \<open>fs\<close>, and with which message: the
  file is missing (\<^verbatim>\<open>FileNotFoundError\<close>), or the environment refuses.
\<close>

definition unlink_raises :: "path \<Rightarrow> env \<Rightarrow> filesystem \<Rightarrow> string option" where
  "unlink_raises p e fs =
     (if fs p = None then
        Some (''[Errno 2] No such file or directory: '' @ [CHR 0x27] @ p @ [CHR 0x27])
      else unlink_error e)"

text \<open>\<^verbatim>\<open>os.unlink(p)\<close>: \<open>Some msg\<close> is the exception raised, \<open>None\<close> is success.\<close>

definition os_unlink :: "path \<Rightarrow> env \<Rightarrow> world \<Rightarrow> string option \<times> world" where
  "os_unlink p e w =
     (let w1 = emit (OsUnlink p) w in
      case unlink_raises p e (files w1) of
        Some msg \<Rightarrow> (Some msg, w1)
      | None \<Rightarrow> (None, w1\<lparr>files := (files w1)(p := None)\<rparr>))"

definition os_path_exists :: "path \<Rightarrow> world \<Rightarrow> bool" where
  "os_path_exists p w = (files w p \<noteq> None)"

text \<open>Decimal digits of a natural number, for the index in a \<^verbatim>\<open>TypeError\<close> message.\<close>

definition digit :: "nat \<Rightarrow> char" where
  "digit d = ''0123456789'' ! d"

function str_nat :: "nat \<Rightarrow> string" where
  "str_nat n = (if n < 10 then [digit n] else str_nat (n div 10) @ [digit (n mod 10)])"
  by pat_completeness auto
termination
  by (relation "measure id") auto

fun join :: "string \<Rightarrow> string list \<Rightarrow> string" where
  "join sep [] = []"
| "join sep [x] = x"
| "join sep (x # y # ys) = x @ sep @ join sep (y # ys)"

fun first_none :: "'a option list \<Rightarrow> nat option" where
  "first_none [] = None"
| "first_none (None # xs) = Some 0"
| "first_none (Some x # xs) = map_option Suc (first_none xs)"

text \<open>
  \<^verbatim>\<open>sep.join(items)\<close> on a Python list whose items are strings or \<^verbatim>\<open>None\<close>: a \<^verbatim>\<open>None\<close> item
  raises \<^verbatim>\<open>TypeError\<close> (\<open>Inl\<close> of its message).
\<close>

definition str_join :: "string \<Rightarrow> string option list \<Rightarrow> string + string" where
  "str_join sep items =
     (case first_none items of
        Some i \<Rightarrow> Inl (''sequence item '' @ str_nat i @ '': expected str instance, NoneType found'')
      | None \<Rightarrow> Inr (join sep (map the items)))"

subsection \<open>execute_ltsp_command\<close>

text \<open>
  \<open>jar\<close> is the module constant \<^verbatim>\<open>LTSP_JAR_PATH\<close>, fixed when the module is loaded.
  \<open>args\<close> is a Python list; the annotation says \<^verbatim>\<open>list[str]\<close>, but the callers put
  \<^verbatim>\<open>request.process\<close> in it, which is \<^verbatim>\<open>Optional[str]\<close>.
  The \<^verbatim>\<open>with\<close> block runs before the \<^verbatim>\<open>try\<close>: an exception there propagates as it is, and
  the \<^verbatim>\<open>finally\<close> clause does not run. After the subprocess run the files are the ones
  the process left, whether it returned or the call raised.
\<close>

definition execute_ltsp_command ::
  "string \<Rightarrow> string \<Rightarrow> string option list \<Rightarrow> env \<Rightarrow> world \<Rightarrow> (failure + LTSResponse) \<times> world" where
  "execute_ltsp_command jar lts_content args e w =
     (case NamedTemporaryFile ''.lts'' e w of
        Inl msg \<Rightarrow> (Inl (UncaughtException msg), w)
      | Inr (temp_file_path, w1) \<Rightarrow>
          (case temp_file_write temp_file_path lts_content e w1 of
             Inl msg \<Rightarrow> (Inl (UncaughtException msg), w1)
           | Inr w2 \<Rightarrow>
               let command = [Some ''java'', Some ''-jar'', Some jar, Some temp_file_path] @ args;
                   (res, w3) =
                     (case str_join '' '' command of
                        Inl msg \<Rightarrow>
                          (Inl (HTTPException 500 (''Internal server error: '' @ msg)),
                           emit (Logged ERROR (''Error executing command: '' @ msg)) w2)
                      | Inr line \<Rightarrow>
                          let w2a = emit (Logged INFO (''Executing command: '' @ line)) w2;
                              (result, fs) = subprocess_run e (map the command) 30 (files w2a);
                              w2b = emit (SubprocessRun (map the command) 30 result)
                                      (w2a\<lparr>files := fs\<rparr>)
                          in (case result of
                                Completed returncode stdout stderr \<Rightarrow>
                                  (Inr \<lparr>success = (returncode = 0),
                                        output' = stdout,
                                        error = (if stderr \<noteq> [] then Some stderr else None)\<rparr>,
                                   w2b)
                              | TimeoutExpired \<Rightarrow>
                                  (Inl (HTTPException 408 ''Command execution timed out''), w2b)
                              | FileNotFoundError \<Rightarrow>
                                  (Inl (HTTPException 500
                                     (''Java or ltsp.jar not found. Please ensure Java is installed and ltsp.jar exists at '' @ jar)),
                                   w2b)
                              | OtherException msg \<Rightarrow>
                                  (Inl (HTTPException 500 (''Internal server error: '' @ msg)),
                                   emit (Logged ERROR (''Error executing command: '' @ msg)) w2b)));
                   (failed, w4) = os_unlink temp_file_path e w3
               in (case failed of
                     None \<Rightarrow> (res, w4)
                   | Some msg \<Rightarrow>
                       (res, emit (Logged WARNING
                          (''Failed to delete temporary file '' @ temp_file_path @ '': '' @ msg)) w4))))"

subsection \<open>Endpoints\<close>

definition parse :: "string \<Rightarrow> LTSRequest \<Rightarrow> env \<Rightarrow> world \<Rightarrow> (failure + LTSResponse) \<times> world" where
  "parse jar request = execute_ltsp_command jar (content request) [Some ''-b'', Some ''parse'']"

definition compile :: "string \<Rightarrow> LTSRequest \<Rightarrow> env \<Rightarrow> world \<Rightarrow> (failure + LTSResponse) \<times> world" where
  "compile jar request =
     execute_ltsp_command jar (content request)
       [Some ''-b'', Some ''compile'', Some ''-p'', process request]"

definition compose :: "string \<Rightarrow> LTSRequest \<Rightarrow> env \<Rightarrow> world \<Rightarrow> (failure + LTSResponse) \<times> world" where
  "compose jar request =
     execute_ltsp_command jar (content request)
       [Some ''-b'', Some ''compose'', Some ''-p'', process request]"

definition check_safety :: "string \<Rightarrow> LTSRequest \<Rightarrow> env \<Rightarrow> world \<Rightarrow> (failure + LTSResponse) \<times> world" where
  "check_safety jar request =
     execute_ltsp_command jar (content request)
       [Some ''-c'', Some ''safety'', Some ''-p'', process request]"

definition check_progress :: "string \<Rightarrow> LTSRequest \<Rightarrow> env \<Rightarrow> world \<Rightarrow> (failure + LTSResponse) \<times> world" where
  "check_progress jar request =
     execute_ltsp_command jar (content request)
       [Some ''-c'', Some ''progress'', Some ''-p'', process request]"

definition check_ltl :: "string \<Rightarrow> LTLRequest \<Rightarrow> env \<Rightarrow> world \<Rightarrow> (failure + LTSResponse) \<times> world" where
  "check_ltl jar request =
     execute_ltsp_command jar (content request)
       [Some ''-c'', Some ''ltl_property'', Some ''-p'', process request,
        Some ''-l'', Some (property request)]"

subsection \<open>Health probe\<close>

record HealthResponse =
  status :: string
  ltsp_jar_exists :: bool
  ltsp_jar_path :: string
  java_available :: bool

text \<open>The bare \<^verbatim>\<open>except:\<close> catches whatever \<^verbatim>\<open>subprocess.run\<close> raises; the exit status is not read.\<close>

definition health_check :: "string \<Rightarrow> env \<Rightarrow> world \<Rightarrow> HealthResponse \<times> world" where
  "health_check jar e w =
     (let jar_exists = os_path_exists jar w;
          (result, fs) = subprocess_run e [''java'', ''-version''] 5 (files w);
          w1 = emit (SubprocessRun [''java'', ''-version''] 5 result) (w\<lparr>files := fs\<rparr>);
          available = (case result of Completed rc out err \<Rightarrow> True | _ \<Rightarrow> False)
      in (\<lparr>status = (if jar_exists \<and> available then ''healthy'' else ''unhealthy''),
           ltsp_jar_exists = jar_exists,
           ltsp_jar_path = jar,
           java_available = available\<rparr>, w1))"

subsection \<open>Request bodies and routing\<close>

text \<open>
  A field of the JSON body is absent, \<^verbatim>\<open>null\<close> or a string (numbers, lists and objects
  are left out: no endpoint is meant to receive them). The models declare
  \<^verbatim>\<open>content: str = Field(...)\<close> (required), \<^verbatim>\<open>process: Optional[str] = Field("DEFAULT")\<close>
  (the default applies when the field is absent; an explicit \<^verbatim>\<open>null\<close> is kept as \<^verbatim>\<open>None\<close>)
  and \<^verbatim>\<open>property: str = Field(...)\<close> (required).
\<close>

datatype json_field = Omitted | Null | Str string

record body =
  content_field :: json_field
  process_field :: json_field
  property_field :: json_field

definition LTSRequest_validate :: "body \<Rightarrow> LTSRequest option" where
  "LTSRequest_validate b =
     (case content_field b of
        Str c \<Rightarrow>
          Some \<lparr>content = c,
                process = (case process_field b of
                             Omitted \<Rightarrow> Some ''DEFAULT''
                           | Null \<Rightarrow> None
                           | Str s \<Rightarrow> Some s)\<rparr>
      | _ \<Rightarrow> None)"

definition LTLRequest_validate :: "body \<Rightarrow> LTLRequest option" where
  "LTLRequest_validate b =
     (case LTSRequest_validate b of
        None \<Rightarrow> None
      | Some r \<Rightarrow>
          (case property_field b of
             Str q \<Rightarrow> Some \<lparr>content = content r, process = process r, property = q\<rparr>
           | _ \<Rightarrow> None))"

text \<open>The \<^verbatim>\<open>@app.post\<close> routes.\<close>

definition app_post ::
  "string \<Rightarrow> string \<Rightarrow> body \<Rightarrow> env \<Rightarrow> world \<Rightarrow> (failure + LTSResponse) \<times> world" where
  "app_post jar route b e w =
     (if route = ''/check/ltl'' then
        (case LTLRequest_validate b of
           None \<Rightarrow> (Inl RequestValidationError, w)
         | Some r \<Rightarrow> check_ltl jar r e w)
      else if route \<in> set [''/parse'', ''/compile'', ''/compose'', ''/check/safety'', ''/check/progress''] then
        (case LTSRequest_validate b of
           None \<Rightarrow> (Inl RequestValidationError, w)
         | Some r \<Rightarrow>
             if route = ''/parse'' then parse jar r e w
             else if route = ''/compile'' then compile jar r e w
             else if route = ''/compose'' then compose jar r e w
             else if route = ''/check/safety'' then check_safety jar r e w
             else check_progress jar r e w)
      else (Inl NoPostHandler, w))"

text \<open>A server run: requests are handled one after the other; only the world is threaded.\<close>

fun serve ::
  "string \<Rightarrow> (string \<times> body \<times> env) list \<Rightarrow> world \<Rightarrow> (failure + LTSResponse) list \<times> world" where
  "serve jar [] w = ([], w)"
| "serve jar ((route, b, e) # rest) w =
     (let (r, w1) = app_post jar route b e w;
          (rs, w2) = serve jar rest w1
      in (r # rs, w2))"


subsection \<open>Vocabulary of the statements\<close>

text \<open>
  The events a call adds to the trace: the world before is \<open>w\<close>, the world after is \<open>w'\<close>.
\<close>

definition trace_of :: "world \<Rightarrow> world \<Rightarrow> event list" where
  "trace_of w w' = drop (length (events w)) (events w')"

text \<open>The command lines of the subprocess runs in a trace, in order.\<close>

fun commands_run :: "event list \<Rightarrow> string list list" where
  "commands_run [] = []"
| "commands_run (SubprocessRun cmd t r # es) = cmd # commands_run es"
| "commands_run (ev # es) = commands_run es"

text \<open>
  A sample environment and world for concrete runs: the first temp name is taken by a
  stale file, the analyzer behaves as \<open>run\<close>, and \<^verbatim>\<open>os.unlink\<close> answers \<open>u\<close>.
\<close>

definition sample_env ::
  "(string list \<Rightarrow> nat \<Rightarrow> filesystem \<Rightarrow> run_outcome \<times> filesystem) \<Rightarrow> string option \<Rightarrow> env" where
  "sample_env run u =
     \<lparr>temp_candidates = [''/tmp/tmp1'', ''/tmp/tmp2''], write_error = None,
      subprocess_run = run, unlink_error = u\<rparr>"

definition sample_world :: world where
  "sample_world = \<lparr>files = [''/tmp/tmp1.lts'' \<mapsto> ''stale''], events = []\<rparr>"

text \<open>
  An analyzer stand-in that prints the file named by its fourth argument and exits with
  status \<open>rc\<close>, writing \<open>err\<close> to stderr. It leaves the files alone.
\<close>

definition echo_analyzer ::
  "int \<Rightarrow> string \<Rightarrow> string list \<Rightarrow> nat \<Rightarrow> filesystem \<Rightarrow> run_outcome \<times> filesystem" where
  "echo_analyzer rc err cmd t fs =
     (case fs (cmd ! 3) of
        Some text \<Rightarrow> (Completed rc text err, fs)
      | None \<Rightarrow> (FileNotFoundError, fs))"

text \<open>
  A stand-in that prints its whole command line, then the file named by its fourth
  argument, and exits with status 0.
\<close>

definition argv_analyzer :: "string list \<Rightarrow> nat \<Rightarrow> filesystem \<Rightarrow> run_outcome \<times> filesystem" where
  "argv_analyzer cmd t fs =
     (case fs (cmd ! 3) of
        Some text \<Rightarrow> (Completed 0 (join '' '' cmd @ '' | '' @ text) [], fs)
      | None \<Rightarrow> (FileNotFoundError, fs))"

text \<open>
  A stand-in that needs \<open>need\<close> seconds: given less time it is killed
  (\<^verbatim>\<open>TimeoutExpired\<close>), otherwise it reports an error in the specification with exit status 1.
\<close>

definition slow_analyzer :: "nat \<Rightarrow> string list \<Rightarrow> nat \<Rightarrow> filesystem \<Rightarrow> run_outcome \<times> filesystem" where
  "slow_analyzer need cmd t fs =
     (if t < need then (TimeoutExpired, fs)
      else (Completed 1 [] ''error: process not defined'', fs))"

text \<open>A stand-in that removes its input file when it is done, and exits with status 0.\<close>

definition consuming_analyzer :: "string list \<Rightarrow> nat \<Rightarrow> filesystem \<Rightarrow> run_outcome \<times> filesystem" where
  "consuming_analyzer cmd t fs = (Completed 0 ''ok'' [], fs(cmd ! 3 := None))"

text \<open>
  The request whose outcome is \<open>X\<close> invokes the analyzer on the temp file \<open>p\<close>, which
  holds \<open>c\<close>, followed by exactly \<open>flags\<close>: the environment is asked once, for the
  command line \<^verbatim>\<open>java -jar <jar> <p> <flags>\<close> with timeout 30 on the files in which \<open>p\<close>
  holds \<open>c\<close>; its answer is the one recorded, and the one relayed when the run completed.
\<close>

definition invokes_analyzer ::
  "string \<Rightarrow> env \<Rightarrow> world \<Rightarrow> path \<Rightarrow> string \<Rightarrow> string list \<Rightarrow> (failure + LTSResponse) \<times> world \<Rightarrow> bool" where
  "invokes_analyzer jar e w p c flags X =
     (let cmd = [''java'', ''-jar'', jar, p] @ flags;
          r = fst (subprocess_run e cmd 30 ((files w)(p \<mapsto> c)))
      in commands_run (trace_of w (snd X)) = [cmd] \<and>
         SubprocessRun cmd 30 r \<in> set (trace_of w (snd X)) \<and>
         (case r of
            Completed rc out err \<Rightarrow>
              fst X = Inr \<lparr>success = (rc = 0), output' = out,
                           error = (if err \<noteq> [] then Some err else None)\<rparr>
          | _ \<Rightarrow> isl (fst X)))"

section \<open>Properties\<close>

subsection \<open>Helper lemmas\<close>


lemma NamedTemporaryFile_Inr:
  "NamedTemporaryFile suffix e w = Inr (p, w1) \<Longrightarrow>
     files w p = None \<and> w1 = \<lparr>files = (files w)(p \<mapsto> []), events = events w @ [TempFileCreated p]\<rparr>"
  by (auto simp: NamedTemporaryFile_def emit_def split: option.splits dest: find_Some_iff[THEN iffD1])

lemma first_none_None: "None \<notin> set xs \<Longrightarrow> first_none xs = None"
  by (induction xs rule: first_none.induct) auto

lemma first_none_Some: "None \<in> set xs \<Longrightarrow> \<exists>i. first_none xs = Some i"
  by (induction xs rule: first_none.induct) auto

lemma str_join_strings:
  "None \<notin> set args \<Longrightarrow>
     str_join sep (Some a # Some b # Some c # Some d # args) = Inr (join sep (a # b # c # d # map the args))"
  by (simp add: str_join_def first_none_None)

lemma str_join_none:
  "None \<in> set args \<Longrightarrow> \<exists>msg. str_join sep (Some a # Some b # Some c # Some d # args) = Inl msg"
  using first_none_Some[of args] by (auto simp: str_join_def)

lemma exec_run_core:
  assumes "NamedTemporaryFile ''.lts'' e w = Inr (p, w1)" and "write_error e = None"
    and "None \<notin> set args"
    and "subprocess_run e ([''java'', ''-jar'', jar, p] @ map the args) 30 ((files w)(p \<mapsto> c)) = (r, fs2)"
  shows "execute_ltsp_command jar c args e w =
     ((case r of
         Completed rc out err \<Rightarrow>
           Inr \<lparr>success = (rc = 0), output' = out, error = (if err \<noteq> [] then Some err else None)\<rparr>
       | TimeoutExpired \<Rightarrow> Inl (HTTPException 408 ''Command execution timed out'')
       | FileNotFoundError \<Rightarrow>
           Inl (HTTPException 500
             (''Java or ltsp.jar not found. Please ensure Java is installed and ltsp.jar exists at '' @ jar))
       | OtherException msg \<Rightarrow> Inl (HTTPException 500 (''Internal server error: '' @ msg))),
      \<lparr>files = (case unlink_raises p e fs2 of None \<Rightarrow> fs2(p := None) | Some msg \<Rightarrow> fs2),
       events =
         events w @
         [TempFileCreated p, TempFileWritten p c,
          Logged INFO (''Executing command: '' @ join '' '' ([''java'', ''-jar'', jar, p] @ map the args)),
          SubprocessRun ([''java'', ''-jar'', jar, p] @ map the args) 30 r] @
         (case r of
            OtherException msg \<Rightarrow> [Logged ERROR (''Error executing command: '' @ msg)]
          | _ \<Rightarrow> []) @
         [OsUnlink p] @
         (case unlink_raises p e fs2 of
            None \<Rightarrow> []
          | Some msg \<Rightarrow> [Logged WARNING (''Failed to delete temporary file '' @ p @ '': '' @ msg)])\<rparr>)"
proof -
  have w1: "w1 = \<lparr>files = (files w)(p \<mapsto> []), events = events w @ [TempFileCreated p]\<rparr>"
    using NamedTemporaryFile_Inr[OF assms(1)] by simp
  have run: "subprocess_run e (''java'' # ''-jar'' # jar # p # map the args) 30 ((files w)(p \<mapsto> c)) = (r, fs2)"
    using assms(4) by simp
  show ?thesis
    by (cases r; cases "unlink_raises p e fs2")
      (simp_all add: execute_ltsp_command_def assms(1,2) w1 temp_file_write_def os_unlink_def emit_def
        Let_def str_join_strings[OF assms(3)] run)
qed

lemma exec_result:
  assumes "NamedTemporaryFile ''.lts'' e w = Inr (p, w1)" and "write_error e = None"
    and "None \<notin> set args"
  shows "fst (execute_ltsp_command jar c args e w) =
     (case fst (subprocess_run e ([''java'', ''-jar'', jar, p] @ map the args) 30 ((files w)(p \<mapsto> c))) of
        Completed rc out err \<Rightarrow>
          Inr \<lparr>success = (rc = 0), output' = out, error = (if err \<noteq> [] then Some err else None)\<rparr>
      | TimeoutExpired \<Rightarrow> Inl (HTTPException 408 ''Command execution timed out'')
      | FileNotFoundError \<Rightarrow>
          Inl (HTTPException 500
            (''Java or ltsp.jar not found. Please ensure Java is installed and ltsp.jar exists at '' @ jar))
      | OtherException msg \<Rightarrow> Inl (HTTPException 500 (''Internal server error: '' @ msg)))"
  by (simp add: exec_run_core[OF assms surjective_pairing])

lemma exec_events:
  assumes "NamedTemporaryFile ''.lts'' e w = Inr (p, w1)" and "write_error e = None"
    and "None \<notin> set args"
  shows "events (snd (execute_ltsp_command jar c args e w)) =
     events w @
     [TempFileCreated p, TempFileWritten p c,
      Logged INFO (''Executing command: '' @ join '' '' ([''java'', ''-jar'', jar, p] @ map the args)),
      SubprocessRun ([''java'', ''-jar'', jar, p] @ map the args) 30
        (fst (subprocess_run e ([''java'', ''-jar'', jar, p] @ map the args) 30 ((files w)(p \<mapsto> c))))] @
     (case fst (subprocess_run e ([''java'', ''-jar'', jar, p] @ map the args) 30 ((files w)(p \<mapsto> c))) of
        OtherException msg \<Rightarrow> [Logged ERROR (''Error executing command: '' @ msg)]
      | _ \<Rightarrow> []) @
     [OsUnlink p] @
     (case unlink_raises p e
             (snd (subprocess_run e ([''java'', ''-jar'', jar, p] @ map the args) 30 ((files w)(p \<mapsto> c)))) of
        None \<Rightarrow> []
      | Some msg \<Rightarrow> [Logged WARNING (''Failed to delete temporary file '' @ p @ '': '' @ msg)])"
  by (simp add: exec_run_core[OF assms surjective_pairing])

lemma exec_files:
  assumes "NamedTemporaryFile ''.lts'' e w = Inr (p, w1)" and "write_error e = None"
    and "None \<notin> set args"
  shows "files (snd (execute_ltsp_command jar c args e w)) =
     (case unlink_raises p e
             (snd (subprocess_run e ([''java'', ''-jar'', jar, p] @ map the args) 30 ((files w)(p \<mapsto> c)))) of
        None \<Rightarrow>
          (snd (subprocess_run e ([''java'', ''-jar'', jar, p] @ map the args) 30 ((files w)(p \<mapsto> c))))
            (p := None)
      | Some msg \<Rightarrow>
          snd (subprocess_run e ([''java'', ''-jar'', jar, p] @ map the args) 30 ((files w)(p \<mapsto> c))))"
  by (simp add: exec_run_core[OF assms surjective_pairing])

lemma trace_of_append: "events w' = events w @ t \<Longrightarrow> trace_of w w' = t"
  by (simp add: trace_of_def)

lemma trace_of_same [simp]: "trace_of w w = []"
  by (simp add: trace_of_def)

lemma exec_create_fail:
  "NamedTemporaryFile ''.lts'' e w = Inl msg \<Longrightarrow>
     execute_ltsp_command jar c args e w = (Inl (UncaughtException msg), w)"
  by (simp add: execute_ltsp_command_def)

lemma exec_write_fail:
  "NamedTemporaryFile ''.lts'' e w = Inr (p, w1) \<Longrightarrow> write_error e = Some msg \<Longrightarrow>
     execute_ltsp_command jar c args e w = (Inl (UncaughtException msg), w1)"
  by (simp add: execute_ltsp_command_def temp_file_write_def)

lemma exec_none_arg:
  assumes "NamedTemporaryFile ''.lts'' e w = Inr (p, w1)" and "write_error e = None"
    and "None \<in> set args"
  shows "\<exists>msg. fst (execute_ltsp_command jar c args e w) =
            Inl (HTTPException 500 (''Internal server error: '' @ msg)) \<and>
          events (snd (execute_ltsp_command jar c args e w)) =
            events w @
            [TempFileCreated p, TempFileWritten p c,
             Logged ERROR (''Error executing command: '' @ msg), OsUnlink p] @
            (case unlink_raises p e ((files w)(p \<mapsto> c)) of
               None \<Rightarrow> []
             | Some m \<Rightarrow> [Logged WARNING (''Failed to delete temporary file '' @ p @ '': '' @ m)]) \<and>
          files (snd (execute_ltsp_command jar c args e w)) =
            (case unlink_raises p e ((files w)(p \<mapsto> c)) of
               None \<Rightarrow> ((files w)(p \<mapsto> c))(p := None)
             | Some m \<Rightarrow> (files w)(p \<mapsto> c))"
proof -
  obtain msg where m: "str_join '' '' (Some ''java'' # Some ''-jar'' # Some jar # Some p # args) = Inl msg"
    using str_join_none[OF assms(3)] by blast
  show ?thesis
    using assms(1,2) NamedTemporaryFile_Inr[OF assms(1)] m
    by (intro exI[of _ msg])
      (simp add: execute_ltsp_command_def temp_file_write_def os_unlink_def emit_def Let_def
        split: option.splits)
qed

lemma exec_cases:
  obtains
    (create_fail) msg where "NamedTemporaryFile ''.lts'' e w = Inl msg"
  | (write_fail) p w1 msg where "NamedTemporaryFile ''.lts'' e w = Inr (p, w1)" "write_error e = Some msg"
  | (none_arg) p w1 where "NamedTemporaryFile ''.lts'' e w = Inr (p, w1)" "write_error e = None"
      "None \<in> set args"
  | (run) p w1 where "NamedTemporaryFile ''.lts'' e w = Inr (p, w1)" "write_error e = None"
      "None \<notin> set args"
proof (cases "NamedTemporaryFile ''.lts'' e w")
  case (Inl msg)
  then show ?thesis by (rule create_fail)
next
  case (Inr pw)
  obtain p w1 where pw: "pw = (p, w1)" by (cases pw)
  show ?thesis
  proof (cases "write_error e")
    case None
    then show ?thesis using Inr pw none_arg run by (cases "None \<in> set args") auto
  next
    case (Some msg)
    then show ?thesis using Inr pw write_fail by auto
  qed
qed

text \<open>Whatever subprocess run a call records, it is the one of the full pipeline.\<close>

lemma exec_run_recorded:
  assumes "SubprocessRun cmd t r \<in> set (trace_of w (snd (execute_ltsp_command jar c args e w)))"
  shows "\<exists>p w1. NamedTemporaryFile ''.lts'' e w = Inr (p, w1) \<and> write_error e = None \<and>
           None \<notin> set args \<and> cmd = [''java'', ''-jar'', jar, p] @ map the args \<and> t = 30 \<and>
           r = fst (subprocess_run e cmd 30 ((files w)(p \<mapsto> c)))"
proof (cases rule: exec_cases[where e=e and w=w and args=args])
  case (create_fail msg)
  then show ?thesis using assms by (simp add: exec_create_fail)
next
  case (write_fail p w1 msg)
  then show ?thesis
    using assms NamedTemporaryFile_Inr[OF write_fail(1)]
    by (simp add: exec_write_fail trace_of_def)
next
  case (none_arg p w1)
  obtain msg where
    "events (snd (execute_ltsp_command jar c args e w)) =
       events w @
       [TempFileCreated p, TempFileWritten p c,
        Logged ERROR (''Error executing command: '' @ msg), OsUnlink p] @
       (case unlink_raises p e ((files w)(p \<mapsto> c)) of
          None \<Rightarrow> []
        | Some m \<Rightarrow> [Logged WARNING (''Failed to delete temporary file '' @ p @ '': '' @ m)])"
    using exec_none_arg[OF none_arg, of jar c] by blast
  then show ?thesis
    using assms by (simp add: trace_of_def split: option.splits)
next
  case (run p w1)
  show ?thesis
    using assms run
    by (auto simp add: trace_of_append[OF exec_events[OF run, of jar c] ]
        split: run_outcome.splits option.splits)
qed

lemma exec_response_from_run:
  assumes "fst (execute_ltsp_command jar c args e w) = Inr resp"
  shows "\<exists>p w1 rc out err. NamedTemporaryFile ''.lts'' e w = Inr (p, w1) \<and> write_error e = None \<and>
           None \<notin> set args \<and>
           fst (subprocess_run e ([''java'', ''-jar'', jar, p] @ map the args) 30 ((files w)(p \<mapsto> c))) =
             Completed rc out err \<and>
           resp = \<lparr>success = (rc = 0), output' = out, error = (if err \<noteq> [] then Some err else None)\<rparr>"
proof (cases rule: exec_cases[where e=e and w=w and args=args])
  case (create_fail msg)
  then show ?thesis using assms by (simp add: exec_create_fail)
next
  case (write_fail p w1 msg)
  then show ?thesis using assms by (simp add: exec_write_fail)
next
  case (none_arg p w1)
  then show ?thesis using assms exec_none_arg[OF none_arg, of jar c] by auto
next
  case (run p w1)
  show ?thesis
  proof (cases "fst (subprocess_run e ([''java'', ''-jar'', jar, p] @ map the args) 30 ((files w)(p \<mapsto> c)))")
    case (Completed rc out err)
    then have "resp = \<lparr>success = (rc = 0), output' = out, error = (if err \<noteq> [] then Some err else None)\<rparr>"
      using assms exec_result[OF run, of jar c] by simp
    then show ?thesis using run Completed by blast
  qed (use assms exec_result[OF run, of jar c] in simp_all)
qed


lemma sample_tmp:
  "NamedTemporaryFile ''.lts'' (sample_env run u) sample_world =
     Inr (''/tmp/tmp2.lts'',
          \<lparr>files = [''/tmp/tmp1.lts'' \<mapsto> ''stale'', ''/tmp/tmp2.lts'' \<mapsto> [] ],
           events = [TempFileCreated ''/tmp/tmp2.lts'']\<rparr>)"
  by (simp add: NamedTemporaryFile_def sample_env_def sample_world_def emit_def)

lemma sample_write [simp]: "write_error (sample_env run u) = None"
  by (simp add: sample_env_def)

lemma exec_completed:
  assumes "SubprocessRun cmd t (Completed rc out err)
             \<in> set (trace_of w (snd (execute_ltsp_command jar c args e w)))"
  shows "fst (execute_ltsp_command jar c args e w) =
           Inr \<lparr>success = (rc = 0), output' = out, error = (if err \<noteq> [] then Some err else None)\<rparr>"
proof -
  obtain p w1 where run: "NamedTemporaryFile ''.lts'' e w = Inr (p, w1)" "write_error e = None"
      "None \<notin> set args"
    and r: "Completed rc out err =
        fst (subprocess_run e ([''java'', ''-jar'', jar, p] @ map the args) 30 ((files w)(p \<mapsto> c)))"
    using exec_run_recorded[OF assms] by blast
  show ?thesis
    using exec_result[OF run, of jar c] r[symmetric] by simp
qed

lemma exec_run_member:
  assumes "NamedTemporaryFile ''.lts'' e w = Inr (p, w1)" and "write_error e = None"
    and "None \<notin> set args"
  shows "SubprocessRun ([''java'', ''-jar'', jar, p] @ map the args) 30
           (fst (subprocess_run e ([''java'', ''-jar'', jar, p] @ map the args) 30 ((files w)(p \<mapsto> c))))
         \<in> set (trace_of w (snd (execute_ltsp_command jar c args e w)))"
  by (simp add: trace_of_append[OF exec_events[OF assms, of jar c] ])

lemmas run_defs =
  execute_ltsp_command_def NamedTemporaryFile_def temp_file_write_def os_unlink_def unlink_raises_def
  str_join_def emit_def trace_of_def sample_env_def sample_world_def echo_analyzer_def Let_def

lemma app_post_parse:
  "app_post jar ''/parse'' b e w =
     (case LTSRequest_validate b of
        None \<Rightarrow> (Inl RequestValidationError, w)
      | Some r \<Rightarrow> parse jar r e w)"
  by (simp add: app_post_def split: option.splits)

lemma app_post_compile:
  "app_post jar ''/compile'' b e w =
     (case LTSRequest_validate b of
        None \<Rightarrow> (Inl RequestValidationError, w)
      | Some r \<Rightarrow> compile jar r e w)"
  by (simp add: app_post_def split: option.splits)

lemma app_post_compose:
  "app_post jar ''/compose'' b e w =
     (case LTSRequest_validate b of
        None \<Rightarrow> (Inl RequestValidationError, w)
      | Some r \<Rightarrow> compose jar r e w)"
  by (simp add: app_post_def split: option.splits)

lemma app_post_check_safety:
  "app_post jar ''/check/safety'' b e w =
     (case LTSRequest_validate b of
        None \<Rightarrow> (Inl RequestValidationError, w)
      | Some r \<Rightarrow> check_safety jar r e w)"
  by (simp add: app_post_def split: option.splits)

lemma app_post_check_progress:
  "app_post jar ''/check/progress'' b e w =
     (case LTSRequest_validate b of
        None \<Rightarrow> (Inl RequestValidationError, w)
      | Some r \<Rightarrow> check_progress jar r e w)"
  by (simp add: app_post_def split: option.splits)

lemma app_post_check_ltl:
  "app_post jar ''/check/ltl'' b e w =
     (case LTLRequest_validate b of
        None \<Rightarrow> (Inl RequestValidationError, w)
      | Some r \<Rightarrow> check_ltl jar r e w)"
  by (simp add: app_post_def split: option.splits)

lemma app_post_unknown:
  "route \<notin> {''/parse'', ''/compile'', ''/compose'', ''/check/safety'', ''/check/progress'', ''/check/ltl''}
     \<Longrightarrow> app_post jar route b e w = (Inl NoPostHandler, w)"
  by (simp add: app_post_def split: option.splits)

lemmas app_post_routes =
  app_post_parse app_post_compile app_post_compose app_post_check_safety app_post_check_progress
  app_post_check_ltl

lemmas endpoint_defs =
  parse_def compile_def compose_def check_safety_def check_progress_def check_ltl_def

lemma app_post_cases:
  obtains
    (invalid) "\<And>e w. app_post jar route b e w = (Inl RequestValidationError, w)"
  | (unknown) "\<And>e w. app_post jar route b e w = (Inl NoPostHandler, w)"
  | (exec) c args where "\<And>e w. app_post jar route b e w = execute_ltsp_command jar c args e w"
proof (cases "route \<in> {''/parse'', ''/compile'', ''/compose'', ''/check/safety'', ''/check/progress'', ''/check/ltl''}")
  case False
  show ?thesis by (rule unknown) (rule app_post_unknown[OF False])
next
  case True
  then have "route = ''/parse'' \<or> route = ''/compile'' \<or> route = ''/compose''
    \<or> route = ''/check/safety'' \<or> route = ''/check/progress'' \<or> route = ''/check/ltl''"
    by simp
  then show ?thesis
  proof (elim disjE)
    assume "route = ''/parse''"
    then show ?thesis using invalid exec
      by (cases "LTSRequest_validate b") (simp_all only: app_post_parse parse_def option.case)
  next
    assume "route = ''/compile''"
    then show ?thesis using invalid exec
      by (cases "LTSRequest_validate b") (simp_all only: app_post_compile compile_def option.case)
  next
    assume "route = ''/compose''"
    then show ?thesis using invalid exec
      by (cases "LTSRequest_validate b") (simp_all only: app_post_compose compose_def option.case)
  next
    assume "route = ''/check/safety''"
    then show ?thesis using invalid exec
      by (cases "LTSRequest_validate b") (simp_all only: app_post_check_safety check_safety_def option.case)
  next
    assume "route = ''/check/progress''"
    then show ?thesis using invalid exec
      by (cases "LTSRequest_validate b") (simp_all only: app_post_check_progress check_progress_def option.case)
  next
    assume "route = ''/check/ltl''"
    then show ?thesis using invalid exec
      by (cases "LTLRequest_validate b") (simp_all only: app_post_check_ltl check_ltl_def option.case)
  qed
qed

lemma exec_commands_run:
  assumes "NamedTemporaryFile ''.lts'' e w = Inr (p, w1)" and "write_error e = None"
    and "None \<notin> set args"
  shows "commands_run (trace_of w (snd (execute_ltsp_command jar c args e w))) =
           [ [''java'', ''-jar'', jar, p] @ map the args]"
  by (simp add: trace_of_append[OF exec_events[OF assms, of jar c] ]
      split: run_outcome.splits option.splits)

lemma compile_commands:
  assumes "NamedTemporaryFile ''.lts'' e w = Inr (p, w1)" and "write_error e = None"
    and "process r = Some proc"
  shows "commands_run (trace_of w (snd (compile jar r e w))) =
           [ [''java'', ''-jar'', jar, p, ''-b'', ''compile'', ''-p'', proc] ]"
  using assms(3) by (simp add: compile_def exec_commands_run[OF assms(1,2)])

lemma compose_commands:
  assumes "NamedTemporaryFile ''.lts'' e w = Inr (p, w1)" and "write_error e = None"
    and "process r = Some proc"
  shows "commands_run (trace_of w (snd (compose jar r e w))) =
           [ [''java'', ''-jar'', jar, p, ''-b'', ''compose'', ''-p'', proc] ]"
  using assms(3) by (simp add: compose_def exec_commands_run[OF assms(1,2)])

lemma check_safety_commands:
  assumes "NamedTemporaryFile ''.lts'' e w = Inr (p, w1)" and "write_error e = None"
    and "process r = Some proc"
  shows "commands_run (trace_of w (snd (check_safety jar r e w))) =
           [ [''java'', ''-jar'', jar, p, ''-c'', ''safety'', ''-p'', proc] ]"
  using assms(3) by (simp add: check_safety_def exec_commands_run[OF assms(1,2)])

lemma check_progress_commands:
  assumes "NamedTemporaryFile ''.lts'' e w = Inr (p, w1)" and "write_error e = None"
    and "process r = Some proc"
  shows "commands_run (trace_of w (snd (check_progress jar r e w))) =
           [ [''java'', ''-jar'', jar, p, ''-c'', ''progress'', ''-p'', proc] ]"
  using assms(3) by (simp add: check_progress_def exec_commands_run[OF assms(1,2)])

lemma check_ltl_commands:
  assumes "NamedTemporaryFile ''.lts'' e w = Inr (p, w1)" and "write_error e = None"
    and "process l = Some proc"
  shows "commands_run (trace_of w (snd (check_ltl jar l e w))) =
           [ [''java'', ''-jar'', jar, p, ''-c'', ''ltl_property'', ''-p'', proc, ''-l'', property l] ]"
  using assms(3) by (simp add: check_ltl_def exec_commands_run[OF assms(1,2)])

lemma LTLRequest_validate_Str:
  "LTSRequest_validate b = Some r \<Longrightarrow> property_field b = Str q \<Longrightarrow>
     LTLRequest_validate b = Some \<lparr>content = content r, process = process r, property = q\<rparr>"
  by (simp add: LTLRequest_validate_def)

lemma sample_validate:
  "LTSRequest_validate \<lparr>content_field = Str c, process_field = Str s, property_field = f\<rparr> =
     Some \<lparr>content = c, process = Some s\<rparr>"
  by (simp add: LTSRequest_validate_def)

lemma LTSRequest_validate_content:
  "content_field b = Str c \<Longrightarrow>
     LTSRequest_validate b =
       Some \<lparr>content = c,
             process = (case process_field b of Omitted \<Rightarrow> Some ''DEFAULT'' | Null \<Rightarrow> None | Str s \<Rightarrow> Some s)\<rparr>"
  by (simp add: LTSRequest_validate_def)

lemma process_endpoint_commands:
  assumes "NamedTemporaryFile ''.lts'' e w = Inr (p, w1)" and "write_error e = None"
    and "LTSRequest_validate b = Some r" and "process r = Some proc"
  shows "commands_run (trace_of w (snd (app_post jar ''/compile'' b e w))) =
           [ [''java'', ''-jar'', jar, p, ''-b'', ''compile'', ''-p'', proc] ]"
    and "commands_run (trace_of w (snd (app_post jar ''/compose'' b e w))) =
           [ [''java'', ''-jar'', jar, p, ''-b'', ''compose'', ''-p'', proc] ]"
    and "commands_run (trace_of w (snd (app_post jar ''/check/safety'' b e w))) =
           [ [''java'', ''-jar'', jar, p, ''-c'', ''safety'', ''-p'', proc] ]"
    and "commands_run (trace_of w (snd (app_post jar ''/check/progress'' b e w))) =
           [ [''java'', ''-jar'', jar, p, ''-c'', ''progress'', ''-p'', proc] ]"
    and "property_field b = Str q \<Longrightarrow>
         commands_run (trace_of w (snd (app_post jar ''/check/ltl'' b e w))) =
           [ [''java'', ''-jar'', jar, p, ''-c'', ''ltl_property'', ''-p'', proc, ''-l'', q] ]"
proof -
  show "commands_run (trace_of w (snd (app_post jar ''/compile'' b e w))) =
           [ [''java'', ''-jar'', jar, p, ''-b'', ''compile'', ''-p'', proc] ]"
    by (simp add: app_post_compile assms(3) compile_commands[OF assms(1,2,4)])
  show "commands_run (trace_of w (snd (app_post jar ''/compose'' b e w))) =
           [ [''java'', ''-jar'', jar, p, ''-b'', ''compose'', ''-p'', proc] ]"
    by (simp add: app_post_compose assms(3) compose_commands[OF assms(1,2,4)])
  show "commands_run (trace_of w (snd (app_post jar ''/check/safety'' b e w))) =
           [ [''java'', ''-jar'', jar, p, ''-c'', ''safety'', ''-p'', proc] ]"
    by (simp add: app_post_check_safety assms(3) check_safety_commands[OF assms(1,2,4)])
  show "commands_run (trace_of w (snd (app_post jar ''/check/progress'' b e w))) =
           [ [''java'', ''-jar'', jar, p, ''-c'', ''progress'', ''-p'', proc] ]"
    by (simp add: app_post_check_progress assms(3) check_progress_commands[OF assms(1,2,4)])
  assume q: "property_field b = Str q"
  have "process \<lparr>content = content r, process = process r, property = q\<rparr> = Some proc"
    using assms(4) by simp
  from check_ltl_commands[OF assms(1,2) this]
  show "commands_run (trace_of w (snd (app_post jar ''/check/ltl'' b e w))) =
           [ [''java'', ''-jar'', jar, p, ''-c'', ''ltl_property'', ''-p'', proc, ''-l'', q] ]"
    by (simp add: app_post_check_ltl LTLRequest_validate_Str[OF assms(3) q])
qed

lemma map_Some_the: "None \<notin> set xs \<Longrightarrow> map Some (map the xs) = xs"
  by (induction xs) auto

lemma exec_invokes:
  assumes "NamedTemporaryFile ''.lts'' e w = Inr (p, w1)" and "write_error e = None"
    and "None \<notin> set args"
  shows "invokes_analyzer jar e w p c (map the args) (execute_ltsp_command jar c args e w)"
  unfolding invokes_analyzer_def Let_def
  using exec_commands_run[OF assms, of jar c] exec_run_member[OF assms, of jar c]
    exec_result[OF assms, of jar c]
  by (simp split: run_outcome.splits)

lemma exec_timeout_iff:
  "fst (execute_ltsp_command jar c args e w) = Inl (HTTPException 408 detail) \<longleftrightarrow>
     detail = ''Command execution timed out'' \<and>
     (\<exists>p w1. NamedTemporaryFile ''.lts'' e w = Inr (p, w1) \<and> write_error e = None \<and>
        None \<notin> set args \<and>
        fst (subprocess_run e ([''java'', ''-jar'', jar, p] @ map the args) 30 ((files w)(p \<mapsto> c))) =
          TimeoutExpired)"
proof (cases rule: exec_cases[where e=e and w=w and args=args])
  case (create_fail msg)
  then show ?thesis by (simp add: exec_create_fail)
next
  case (write_fail p w1 msg)
  then show ?thesis by (simp add: exec_write_fail)
next
  case (none_arg p w1)
  then show ?thesis using exec_none_arg[OF none_arg, of jar c] by auto
next
  case (run p w1)
  show ?thesis
    using run exec_result[OF run, of jar c]
    by (cases "fst (subprocess_run e ([''java'', ''-jar'', jar, p] @ map the args) 30 ((files w)(p \<mapsto> c)))")
       auto
qed

subsection \<open>Relaying the process result\<close>





subsection \<open>Timeout\<close>

text \<open>
  C3. Every subprocess run of \<open>execute_ltsp_command\<close> is bounded by the timeout 30: the
  environment is asked with timeout 30, and the recorded result is its answer. The call
  fails with \<^verbatim>\<open>HTTPException(408, "Command execution timed out")\<close> exactly when that run
  raised \<^verbatim>\<open>TimeoutExpired\<close>; a run that completed with a nonzero exit status gives a normal
  response with \<open>success = False\<close> instead, never the 408 failure.
\<close>

theorem timeout_is_bounded_and_distinct:
  "(\<forall>cmd t r. SubprocessRun cmd t r \<in> set (trace_of w (snd (execute_ltsp_command jar c args e w)))
       \<longrightarrow> t = 30 \<and> (\<exists>p. r = fst (subprocess_run e cmd 30 ((files w)(p \<mapsto> c))))) \<and>
   (\<forall>detail. fst (execute_ltsp_command jar c args e w) = Inl (HTTPException 408 detail) \<longleftrightarrow>
       detail = ''Command execution timed out'' \<and>
       (\<exists>p w1. NamedTemporaryFile ''.lts'' e w = Inr (p, w1) \<and> write_error e = None \<and>
          None \<notin> set args \<and>
          fst (subprocess_run e ([''java'', ''-jar'', jar, p] @ map the args) 30 ((files w)(p \<mapsto> c))) =
            TimeoutExpired)) \<and>
   (\<forall>p w1 rc out err.
       NamedTemporaryFile ''.lts'' e w = Inr (p, w1) \<and> write_error e = None \<and> None \<notin> set args \<and>
       fst (subprocess_run e ([''java'', ''-jar'', jar, p] @ map the args) 30 ((files w)(p \<mapsto> c))) =
         Completed rc out err \<and> rc \<noteq> 0
       \<longrightarrow> fst (execute_ltsp_command jar c args e w) =
             Inr \<lparr>success = False, output' = out, error = (if err \<noteq> [] then Some err else None)\<rparr>)"
proof (intro conjI allI impI; (elim conjE)?)
  fix cmd t r
  assume a: "SubprocessRun cmd t r \<in> set (trace_of w (snd (execute_ltsp_command jar c args e w)))"
  show "t = 30" using exec_run_recorded[OF a] by blast
  show "\<exists>p. r = fst (subprocess_run e cmd 30 ((files w)(p \<mapsto> c)))"
    using exec_run_recorded[OF a] by blast
next
  fix detail
  show "fst (execute_ltsp_command jar c args e w) = Inl (HTTPException 408 detail) \<longleftrightarrow>
       detail = ''Command execution timed out'' \<and>
       (\<exists>p w1. NamedTemporaryFile ''.lts'' e w = Inr (p, w1) \<and> write_error e = None \<and>
          None \<notin> set args \<and>
          fst (subprocess_run e ([''java'', ''-jar'', jar, p] @ map the args) 30 ((files w)(p \<mapsto> c))) =
            TimeoutExpired)"
    by (rule exec_timeout_iff)
next
  fix p w1 rc out err
  assume run: "NamedTemporaryFile ''.lts'' e w = Inr (p, w1)" "write_error e = None" "None \<notin> set args"
    and r: "fst (subprocess_run e ([''java'', ''-jar'', jar, p] @ map the args) 30 ((files w)(p \<mapsto> c))) =
         Completed rc out err"
    and nz: "rc \<noteq> 0"
  show "fst (execute_ltsp_command jar c args e w) =
             Inr \<lparr>success = False, output' = out, error = (if err \<noteq> [] then Some err else None)\<rparr>"
    using exec_result[OF run, of jar c] r nz by simp
qed

text \<open>
  A safety check on an analyzer that needs 45 seconds, and the same check on one that
  needs 10 seconds and then exits with status 1.
\<close>

theorem timeout_is_bounded_and_distinct_witness:
  "NamedTemporaryFile ''.lts'' (sample_env (slow_analyzer 45) None) sample_world =
     Inr (''/tmp/tmp2.lts'',
          \<lparr>files = [''/tmp/tmp1.lts'' \<mapsto> ''stale'', ''/tmp/tmp2.lts'' \<mapsto> [] ],
           events = [TempFileCreated ''/tmp/tmp2.lts'']\<rparr>) \<and>
   fst (subprocess_run (sample_env (slow_analyzer 45) None)
          ([''java'', ''-jar'', ''/app/ltsp.jar'', ''/tmp/tmp2.lts''] @
           map the [Some ''-c'', Some ''safety'', Some ''-p'', Some ''SYSTEM'']) 30
          ((files sample_world)(''/tmp/tmp2.lts'' \<mapsto> ''P = (a -> P).''))) = TimeoutExpired \<and>
   fst (execute_ltsp_command ''/app/ltsp.jar'' ''P = (a -> P).''
          [Some ''-c'', Some ''safety'', Some ''-p'', Some ''SYSTEM'']
          (sample_env (slow_analyzer 45) None) sample_world) =
     Inl (HTTPException 408 ''Command execution timed out'') \<and>
   fst (subprocess_run (sample_env (slow_analyzer 10) None)
          ([''java'', ''-jar'', ''/app/ltsp.jar'', ''/tmp/tmp2.lts''] @
           map the [Some ''-c'', Some ''safety'', Some ''-p'', Some ''SYSTEM'']) 30
          ((files sample_world)(''/tmp/tmp2.lts'' \<mapsto> ''P = (a -> P).''))) =
     Completed 1 [] ''error: process not defined'' \<and>
   fst (execute_ltsp_command ''/app/ltsp.jar'' ''P = (a -> P).''
          [Some ''-c'', Some ''safety'', Some ''-p'', Some ''SYSTEM'']
          (sample_env (slow_analyzer 10) None) sample_world) =
     Inr \<lparr>success = False, output' = [], error = Some ''error: process not defined''\<rparr>"
  (is "?tmp \<and> ?slow \<and> ?r408 \<and> ?quick \<and> ?rfail")
proof -
  let ?args = "[Some ''-c'', Some ''safety'', Some ''-p'', Some ''SYSTEM'']"
  have tmp: ?tmp by (rule sample_tmp)
  have slow: ?slow by (simp add: sample_env_def slow_analyzer_def)
  have quick: ?quick by (simp add: sample_env_def slow_analyzer_def)
  have n: "None \<notin> set ?args" by simp
  have one: "(1::int) \<noteq> 0" by simp
  have r408: ?r408
    using timeout_is_bounded_and_distinct[THEN conjunct2, THEN conjunct1, rule_format,
        where jar="''/app/ltsp.jar''" and c="''P = (a -> P).''" and args="?args"
          and e="sample_env (slow_analyzer 45) None" and w=sample_world
          and detail="''Command execution timed out''"]
      tmp slow n sample_write[of "slow_analyzer 45" None]
    by blast
  have rfail: ?rfail
    using timeout_is_bounded_and_distinct[THEN conjunct2, THEN conjunct2, rule_format,
        OF conjI[OF sample_tmp conjI[OF sample_write conjI[OF n conjI[OF quick one] ] ] ] ]
    by simp
  show ?thesis using tmp slow r408 quick rfail by (intro conjI)
qed

subsection \<open>Analyzer command line\<close>

text \<open>
  C2. For every endpoint, the analyzer is invoked once, on the path of the temp file of the
  request followed by exactly the mode flags of the endpoint:
  \<^verbatim>\<open>-b parse\<close> for /parse, \<^verbatim>\<open>-b compile -p <process>\<close> for /compile,
  \<^verbatim>\<open>-b compose -p <process>\<close> for /compose, \<^verbatim>\<open>-c safety -p <process>\<close> for /check/safety,
  \<^verbatim>\<open>-c progress -p <process>\<close> for /check/progress and
  \<^verbatim>\<open>-c ltl_property -p <process> -l <property>\<close> for /check/ltl.
  Here \<open>p\<close> is the temp file the request created and wrote, \<open>r\<close> the validated request,
  and \<open>proc\<close> its process name. Invoking means that the environment's process is run on
  that command line, with the temp file holding the content of the request, and that its
  answer is what the request records and relays.
\<close>

theorem endpoints_invoke_analyzer_with_mode_flags:
  assumes "NamedTemporaryFile ''.lts'' e w = Inr (p, w1)" and "write_error e = None"
    and "LTSRequest_validate b = Some r"
  shows "invokes_analyzer jar e w p (content r) [''-b'', ''parse''] (app_post jar ''/parse'' b e w) \<and>
         (\<forall>proc. process r = Some proc \<longrightarrow>
            invokes_analyzer jar e w p (content r) [''-b'', ''compile'', ''-p'', proc]
              (app_post jar ''/compile'' b e w) \<and>
            invokes_analyzer jar e w p (content r) [''-b'', ''compose'', ''-p'', proc]
              (app_post jar ''/compose'' b e w) \<and>
            invokes_analyzer jar e w p (content r) [''-c'', ''safety'', ''-p'', proc]
              (app_post jar ''/check/safety'' b e w) \<and>
            invokes_analyzer jar e w p (content r) [''-c'', ''progress'', ''-p'', proc]
              (app_post jar ''/check/progress'' b e w) \<and>
            (\<forall>q. property_field b = Str q \<longrightarrow>
               invokes_analyzer jar e w p (content r) [''-c'', ''ltl_property'', ''-p'', proc, ''-l'', q]
                 (app_post jar ''/check/ltl'' b e w)))"
proof (intro conjI allI impI)
  have "None \<notin> set [Some ''-b'', Some ''parse'']" by simp
  from exec_invokes[OF assms(1,2) this, of jar "content r"]
  show "invokes_analyzer jar e w p (content r) [''-b'', ''parse''] (app_post jar ''/parse'' b e w)"
    by (simp add: app_post_parse assms(3) parse_def)
next
  fix proc assume pr: "process r = Some proc"
  have "None \<notin> set [Some ''-b'', Some ''compile'', Some ''-p'', Some proc]" by simp
  from exec_invokes[OF assms(1,2) this, of jar "content r"]
  show "invokes_analyzer jar e w p (content r) [''-b'', ''compile'', ''-p'', proc]
              (app_post jar ''/compile'' b e w)"
    by (simp add: app_post_compile assms(3) compile_def pr)
next
  fix proc assume pr: "process r = Some proc"
  have "None \<notin> set [Some ''-b'', Some ''compose'', Some ''-p'', Some proc]" by simp
  from exec_invokes[OF assms(1,2) this, of jar "content r"]
  show "invokes_analyzer jar e w p (content r) [''-b'', ''compose'', ''-p'', proc]
              (app_post jar ''/compose'' b e w)"
    by (simp add: app_post_compose assms(3) compose_def pr)
next
  fix proc assume pr: "process r = Some proc"
  have "None \<notin> set [Some ''-c'', Some ''safety'', Some ''-p'', Some proc]" by simp
  from exec_invokes[OF assms(1,2) this, of jar "content r"]
  show "invokes_analyzer jar e w p (content r) [''-c'', ''safety'', ''-p'', proc]
              (app_post jar ''/check/safety'' b e w)"
    by (simp add: app_post_check_safety assms(3) check_safety_def pr)
next
  fix proc assume pr: "process r = Some proc"
  have "None \<notin> set [Some ''-c'', Some ''progress'', Some ''-p'', Some proc]" by simp
  from exec_invokes[OF assms(1,2) this, of jar "content r"]
  show "invokes_analyzer jar e w p (content r) [''-c'', ''progress'', ''-p'', proc]
              (app_post jar ''/check/progress'' b e w)"
    by (simp add: app_post_check_progress assms(3) check_progress_def pr)
next
  fix proc q assume pr: "process r = Some proc" and q: "property_field b = Str q"
  have "None \<notin> set [Some ''-c'', Some ''ltl_property'', Some ''-p'', Some proc, Some ''-l'', Some q]"
    by simp
  from exec_invokes[OF assms(1,2) this, of jar "content r"]
  show "invokes_analyzer jar e w p (content r) [''-c'', ''ltl_property'', ''-p'', proc, ''-l'', q]
                 (app_post jar ''/check/ltl'' b e w)"
    by (simp add: app_post_check_ltl LTLRequest_validate_Str[OF assms(3) q] check_ltl_def pr)
qed

text \<open>
  The six endpoints on one body, with process \<^verbatim>\<open>SYSTEM\<close> and property \<^verbatim>\<open>LIVE\<close>, on an
  analyzer that prints its command line and its input file: each response shows the
  command line of its endpoint and the specification.
\<close>

theorem endpoints_invoke_analyzer_with_mode_flags_witness:
  "NamedTemporaryFile ''.lts'' (sample_env argv_analyzer None) sample_world =
     Inr (''/tmp/tmp2.lts'',
          \<lparr>files = [''/tmp/tmp1.lts'' \<mapsto> ''stale'', ''/tmp/tmp2.lts'' \<mapsto> [] ],
           events = [TempFileCreated ''/tmp/tmp2.lts'']\<rparr>) \<and>
   write_error (sample_env argv_analyzer None) = None \<and>
   LTSRequest_validate \<lparr>content_field = Str ''P = (a -> P).'', process_field = Str ''SYSTEM'',
                        property_field = Str ''LIVE''\<rparr> =
     Some \<lparr>content = ''P = (a -> P).'', process = Some ''SYSTEM''\<rparr> \<and>
   fst (app_post ''/app/ltsp.jar'' ''/parse''
       \<lparr>content_field = Str ''P = (a -> P).'', process_field = Str ''SYSTEM'', property_field = Str ''LIVE''\<rparr>
       (sample_env argv_analyzer None) sample_world) =
     Inr \<lparr>success = True,
          output' = ''java -jar /app/ltsp.jar /tmp/tmp2.lts -b parse | P = (a -> P).'',
          error = None\<rparr> \<and>
   fst (app_post ''/app/ltsp.jar'' ''/compile''
       \<lparr>content_field = Str ''P = (a -> P).'', process_field = Str ''SYSTEM'', property_field = Str ''LIVE''\<rparr>
       (sample_env argv_analyzer None) sample_world) =
     Inr \<lparr>success = True,
          output' = ''java -jar /app/ltsp.jar /tmp/tmp2.lts -b compile -p SYSTEM | P = (a -> P).'',
          error = None\<rparr> \<and>
   fst (app_post ''/app/ltsp.jar'' ''/compose''
       \<lparr>content_field = Str ''P = (a -> P).'', process_field = Str ''SYSTEM'', property_field = Str ''LIVE''\<rparr>
       (sample_env argv_analyzer None) sample_world) =
     Inr \<lparr>success = True,
          output' = ''java -jar /app/ltsp.jar /tmp/tmp2.lts -b compose -p SYSTEM | P = (a -> P).'',
          error = None\<rparr> \<and>
   fst (app_post ''/app/ltsp.jar'' ''/check/safety''
       \<lparr>content_field = Str ''P = (a -> P).'', process_field = Str ''SYSTEM'', property_field = Str ''LIVE''\<rparr>
       (sample_env argv_analyzer None) sample_world) =
     Inr \<lparr>success = True,
          output' = ''java -jar /app/ltsp.jar /tmp/tmp2.lts -c safety -p SYSTEM | P = (a -> P).'',
          error = None\<rparr> \<and>
   fst (app_post ''/app/ltsp.jar'' ''/check/progress''
       \<lparr>content_field = Str ''P = (a -> P).'', process_field = Str ''SYSTEM'', property_field = Str ''LIVE''\<rparr>
       (sample_env argv_analyzer None) sample_world) =
     Inr \<lparr>success = True,
          output' = ''java -jar /app/ltsp.jar /tmp/tmp2.lts -c progress -p SYSTEM | P = (a -> P).'',
          error = None\<rparr> \<and>
   fst (app_post ''/app/ltsp.jar'' ''/check/ltl''
       \<lparr>content_field = Str ''P = (a -> P).'', process_field = Str ''SYSTEM'', property_field = Str ''LIVE''\<rparr>
       (sample_env argv_analyzer None) sample_world) =
     Inr \<lparr>success = True,
          output' = ''java -jar /app/ltsp.jar /tmp/tmp2.lts -c ltl_property -p SYSTEM -l LIVE | P = (a -> P).'',
          error = None\<rparr> \<and>
   commands_run (trace_of sample_world (snd (app_post ''/app/ltsp.jar'' ''/check/ltl''
       \<lparr>content_field = Str ''P = (a -> P).'', process_field = Str ''SYSTEM'', property_field = Str ''LIVE''\<rparr>
       (sample_env argv_analyzer None) sample_world))) =
     [ [''java'', ''-jar'', ''/app/ltsp.jar'', ''/tmp/tmp2.lts'', ''-c'', ''ltl_property'', ''-p'', ''SYSTEM'',
       ''-l'', ''LIVE''] ]"
  using sample_tmp[of argv_analyzer None]
    endpoints_invoke_analyzer_with_mode_flags[OF sample_tmp[of argv_analyzer None] sample_write
      sample_validate[of "''P = (a -> P).''" "''SYSTEM''" "Str ''LIVE''"],
      where jar="''/app/ltsp.jar''"]
  by (simp add: sample_validate invokes_analyzer_def Let_def sample_env_def sample_world_def
      argv_analyzer_def)

text \<open>
  C9 says that, thanks to the default, the \<^verbatim>\<open>-p\<close> flag is always passed with a non-empty
  argument. A request that gives \<^verbatim>\<open>"process": ""\<close> explicitly is accepted, and the analyzer
  is run with \<^verbatim>\<open>-p\<close> followed by the empty string.
\<close>

theorem process_flag_empty_argument_counterexample:
  "commands_run (trace_of sample_world (snd (app_post ''/app/ltsp.jar'' ''/compile''
       \<lparr>content_field = Str ''A = (a -> A).'', process_field = Str [], property_field = Omitted\<rparr>
       (sample_env (echo_analyzer 0 []) None) sample_world))) =
     [ [''java'', ''-jar'', ''/app/ltsp.jar'', ''/tmp/tmp2.lts'', ''-b'', ''compile'', ''-p'', [] ] ]"
  by (simp add: run_defs app_post_compile compile_def LTSRequest_validate_def)

text \<open>
  C9, amended. For /compile, /compose, /check/safety, /check/progress and /check/ltl, a
  request that omits the process field gets the process name \<^verbatim>\<open>"DEFAULT"\<close>, so for such a
  request \<^verbatim>\<open>-p\<close> is passed with the non-empty argument \<^verbatim>\<open>DEFAULT\<close>; a request that gives a
  process string has exactly that string passed after \<^verbatim>\<open>-p\<close>, empty or not.
\<close>

theorem omitted_process_defaults_to_DEFAULT:
  assumes "NamedTemporaryFile ''.lts'' e w = Inr (p, w1)" and "write_error e = None"
    and "content_field b = Str c"
  shows "(process_field b = Omitted \<longrightarrow>
            map_option process (LTSRequest_validate b) = Some (Some ''DEFAULT'') \<and>
            commands_run (trace_of w (snd (app_post jar ''/compile'' b e w))) =
              [ [''java'', ''-jar'', jar, p, ''-b'', ''compile'', ''-p'', ''DEFAULT''] ] \<and>
            commands_run (trace_of w (snd (app_post jar ''/compose'' b e w))) =
              [ [''java'', ''-jar'', jar, p, ''-b'', ''compose'', ''-p'', ''DEFAULT''] ] \<and>
            commands_run (trace_of w (snd (app_post jar ''/check/safety'' b e w))) =
              [ [''java'', ''-jar'', jar, p, ''-c'', ''safety'', ''-p'', ''DEFAULT''] ] \<and>
            commands_run (trace_of w (snd (app_post jar ''/check/progress'' b e w))) =
              [ [''java'', ''-jar'', jar, p, ''-c'', ''progress'', ''-p'', ''DEFAULT''] ] \<and>
            (\<forall>q. property_field b = Str q \<longrightarrow>
               commands_run (trace_of w (snd (app_post jar ''/check/ltl'' b e w))) =
                 [ [''java'', ''-jar'', jar, p, ''-c'', ''ltl_property'', ''-p'', ''DEFAULT'', ''-l'', q] ])) \<and>
         (\<forall>s. process_field b = Str s \<longrightarrow>
            commands_run (trace_of w (snd (app_post jar ''/compile'' b e w))) =
              [ [''java'', ''-jar'', jar, p, ''-b'', ''compile'', ''-p'', s] ] \<and>
            commands_run (trace_of w (snd (app_post jar ''/compose'' b e w))) =
              [ [''java'', ''-jar'', jar, p, ''-b'', ''compose'', ''-p'', s] ] \<and>
            commands_run (trace_of w (snd (app_post jar ''/check/safety'' b e w))) =
              [ [''java'', ''-jar'', jar, p, ''-c'', ''safety'', ''-p'', s] ] \<and>
            commands_run (trace_of w (snd (app_post jar ''/check/progress'' b e w))) =
              [ [''java'', ''-jar'', jar, p, ''-c'', ''progress'', ''-p'', s] ] \<and>
            (\<forall>q. property_field b = Str q \<longrightarrow>
               commands_run (trace_of w (snd (app_post jar ''/check/ltl'' b e w))) =
                 [ [''java'', ''-jar'', jar, p, ''-c'', ''ltl_property'', ''-p'', s, ''-l'', q] ]))"
proof (intro conjI impI allI)
  assume o: "process_field b = Omitted"
  have v: "LTSRequest_validate b = Some \<lparr>content = c, process = Some ''DEFAULT''\<rparr>"
    using LTSRequest_validate_content[OF assms(3)] o by simp
  have pr: "process \<lparr>content = c, process = Some ''DEFAULT''\<rparr> = Some ''DEFAULT''" by simp
  show "map_option process (LTSRequest_validate b) = Some (Some ''DEFAULT'')"
    by (simp add: v)
  show "commands_run (trace_of w (snd (app_post jar ''/compile'' b e w))) =
              [ [''java'', ''-jar'', jar, p, ''-b'', ''compile'', ''-p'', ''DEFAULT''] ]"
    by (rule process_endpoint_commands(1)[OF assms(1,2) v pr])
  show "commands_run (trace_of w (snd (app_post jar ''/compose'' b e w))) =
              [ [''java'', ''-jar'', jar, p, ''-b'', ''compose'', ''-p'', ''DEFAULT''] ]"
    by (rule process_endpoint_commands(2)[OF assms(1,2) v pr])
  show "commands_run (trace_of w (snd (app_post jar ''/check/safety'' b e w))) =
              [ [''java'', ''-jar'', jar, p, ''-c'', ''safety'', ''-p'', ''DEFAULT''] ]"
    by (rule process_endpoint_commands(3)[OF assms(1,2) v pr])
  show "commands_run (trace_of w (snd (app_post jar ''/check/progress'' b e w))) =
              [ [''java'', ''-jar'', jar, p, ''-c'', ''progress'', ''-p'', ''DEFAULT''] ]"
    by (rule process_endpoint_commands(4)[OF assms(1,2) v pr])
  fix q assume "property_field b = Str q"
  then show "commands_run (trace_of w (snd (app_post jar ''/check/ltl'' b e w))) =
                 [ [''java'', ''-jar'', jar, p, ''-c'', ''ltl_property'', ''-p'', ''DEFAULT'', ''-l'', q] ]"
    by (rule process_endpoint_commands(5)[OF assms(1,2) v pr])
next
  fix s assume g: "process_field b = Str s"
  have v: "LTSRequest_validate b = Some \<lparr>content = c, process = Some s\<rparr>"
    using LTSRequest_validate_content[OF assms(3)] g by simp
  have pr: "process \<lparr>content = c, process = Some s\<rparr> = Some s" by simp
  show "commands_run (trace_of w (snd (app_post jar ''/compile'' b e w))) =
              [ [''java'', ''-jar'', jar, p, ''-b'', ''compile'', ''-p'', s] ]"
    by (rule process_endpoint_commands(1)[OF assms(1,2) v pr])
  show "commands_run (trace_of w (snd (app_post jar ''/compose'' b e w))) =
              [ [''java'', ''-jar'', jar, p, ''-b'', ''compose'', ''-p'', s] ]"
    by (rule process_endpoint_commands(2)[OF assms(1,2) v pr])
  show "commands_run (trace_of w (snd (app_post jar ''/check/safety'' b e w))) =
              [ [''java'', ''-jar'', jar, p, ''-c'', ''safety'', ''-p'', s] ]"
    by (rule process_endpoint_commands(3)[OF assms(1,2) v pr])
  show "commands_run (trace_of w (snd (app_post jar ''/check/progress'' b e w))) =
              [ [''java'', ''-jar'', jar, p, ''-c'', ''progress'', ''-p'', s] ]"
    by (rule process_endpoint_commands(4)[OF assms(1,2) v pr])
  fix q assume "property_field b = Str q"
  then show "commands_run (trace_of w (snd (app_post jar ''/check/ltl'' b e w))) =
                 [ [''java'', ''-jar'', jar, p, ''-c'', ''ltl_property'', ''-p'', s, ''-l'', q] ]"
    by (rule process_endpoint_commands(5)[OF assms(1,2) v pr])
qed

text \<open>A body without process field, sent to /compile and to /check/ltl.\<close>

theorem omitted_process_defaults_to_DEFAULT_witness:
  "NamedTemporaryFile ''.lts'' (sample_env (echo_analyzer 0 []) None) sample_world =
     Inr (''/tmp/tmp2.lts'',
          \<lparr>files = [''/tmp/tmp1.lts'' \<mapsto> ''stale'', ''/tmp/tmp2.lts'' \<mapsto> [] ],
           events = [TempFileCreated ''/tmp/tmp2.lts'']\<rparr>) \<and>
   write_error (sample_env (echo_analyzer 0 []) None) = None \<and>
   content_field \<lparr>content_field = Str ''P = (a -> P).'', process_field = Omitted,
                  property_field = Str ''LIVE''\<rparr> = Str ''P = (a -> P).'' \<and>
   process_field \<lparr>content_field = Str ''P = (a -> P).'', process_field = Omitted,
                  property_field = Str ''LIVE''\<rparr> = Omitted \<and>
   property_field \<lparr>content_field = Str ''P = (a -> P).'', process_field = Omitted,
                   property_field = Str ''LIVE''\<rparr> = Str ''LIVE'' \<and>
   commands_run (trace_of sample_world (snd (app_post ''/app/ltsp.jar'' ''/compile''
       \<lparr>content_field = Str ''P = (a -> P).'', process_field = Omitted, property_field = Str ''LIVE''\<rparr>
       (sample_env (echo_analyzer 0 []) None) sample_world))) =
     [ [''java'', ''-jar'', ''/app/ltsp.jar'', ''/tmp/tmp2.lts'', ''-b'', ''compile'', ''-p'', ''DEFAULT''] ] \<and>
   commands_run (trace_of sample_world (snd (app_post ''/app/ltsp.jar'' ''/check/ltl''
       \<lparr>content_field = Str ''P = (a -> P).'', process_field = Omitted, property_field = Str ''LIVE''\<rparr>
       (sample_env (echo_analyzer 0 []) None) sample_world))) =
     [ [''java'', ''-jar'', ''/app/ltsp.jar'', ''/tmp/tmp2.lts'', ''-c'', ''ltl_property'', ''-p'', ''DEFAULT'',
       ''-l'', ''LIVE''] ]"
  using sample_tmp[of "echo_analyzer 0 []" None]
    omitted_process_defaults_to_DEFAULT[OF sample_tmp[of "echo_analyzer 0 []" None] sample_write,
      where b="\<lparr>content_field = Str ''P = (a -> P).'', process_field = Omitted,
                 property_field = Str ''LIVE''\<rparr>"
        and c="''P = (a -> P).''" and jar="''/app/ltsp.jar''"]
  by simp

subsection \<open>Temporary file\<close>

text \<open>
  C4 says that the temp file is removed on every exit path. When \<^verbatim>\<open>os.unlink\<close> raises, the
  \<^verbatim>\<open>finally\<close> clause logs a warning and the call returns as usual: here a successful parse
  returns while the file it created still exists, with the specification in it.
\<close>

theorem temp_file_left_behind_counterexample:
  "fst (execute_ltsp_command ''/app/ltsp.jar'' ''A = (a -> A).'' [Some ''-b'', Some ''parse'']
          (sample_env (echo_analyzer 0 []) (Some ''Permission denied'')) sample_world) =
     Inr \<lparr>success = True, output' = ''A = (a -> A).'', error = None\<rparr> \<and>
   files sample_world ''/tmp/tmp2.lts'' = None \<and>
   files (snd (execute_ltsp_command ''/app/ltsp.jar'' ''A = (a -> A).'' [Some ''-b'', Some ''parse'']
          (sample_env (echo_analyzer 0 []) (Some ''Permission denied'')) sample_world)) ''/tmp/tmp2.lts'' =
     Some ''A = (a -> A).''"
  by (simp add: run_defs)

text \<open>
  C4, amended. For every call whose temp file \<open>p\<close> was created and written: \<open>p\<close> did
  not exist before the call; any analyzer run of the call comes after the write, is given
  \<open>p\<close> as its file argument and starts on files in which \<open>p\<close> holds the specification;
  and on every exit path from there (success, analyzer failure, timeout, any other
  exception) \<^verbatim>\<open>os.unlink\<close> is called on \<open>p\<close> as the last step but for a warning. The file is
  removed whenever that call does not raise; when it raises (the environment refuses, or
  the analyzer has already removed its input) the exception is logged as a warning and
  changes nothing else. Here \<open>left\<close> is the file system when \<^verbatim>\<open>os.unlink\<close> is called: what
  the analyzer run left, or the files after the write when no run took place. A call whose
  temp file cannot be created changes nothing.
\<close>

theorem temp_file_fresh_and_unlink_attempted:
  "(\<forall>msg. NamedTemporaryFile ''.lts'' e w = Inl msg \<longrightarrow>
      execute_ltsp_command jar c args e w = (Inl (UncaughtException msg), w)) \<and>
   (\<forall>p w1. NamedTemporaryFile ''.lts'' e w = Inr (p, w1) \<and> write_error e = None \<longrightarrow>
      files w p = None \<and>
      (\<forall>cmd t r. SubprocessRun cmd t r \<in> set (trace_of w (snd (execute_ltsp_command jar c args e w))) \<longrightarrow>
         cmd = [''java'', ''-jar'', jar, p] @ map the args \<and>
         r = fst (subprocess_run e cmd t ((files w)(p \<mapsto> c)))) \<and>
      (let left =
             (if None \<in> set args then (files w)(p \<mapsto> c)
              else snd (subprocess_run e ([''java'', ''-jar'', jar, p] @ map the args) 30
                          ((files w)(p \<mapsto> c))))
       in (\<exists>mid. trace_of w (snd (execute_ltsp_command jar c args e w)) =
                   [TempFileCreated p, TempFileWritten p c] @ mid @ [OsUnlink p] @
                   (case unlink_raises p e left of
                      None \<Rightarrow> []
                    | Some msg \<Rightarrow>
                        [Logged WARNING (''Failed to delete temporary file '' @ p @ '': '' @ msg)])) \<and>
          files (snd (execute_ltsp_command jar c args e w)) =
            (case unlink_raises p e left of None \<Rightarrow> left(p := None) | Some msg \<Rightarrow> left) \<and>
          (unlink_raises p e left = None \<longrightarrow>
             files (snd (execute_ltsp_command jar c args e w)) p = None)))"
proof (intro conjI allI impI; (elim conjE)?)
  fix msg assume "NamedTemporaryFile ''.lts'' e w = Inl msg"
  then show "execute_ltsp_command jar c args e w = (Inl (UncaughtException msg), w)"
    by (rule exec_create_fail)
next
  fix p w1 assume tmp: "NamedTemporaryFile ''.lts'' e w = Inr (p, w1)" "write_error e = None"
  show "files w p = None" using NamedTemporaryFile_Inr[OF tmp(1)] by simp
  show "cmd = [''java'', ''-jar'', jar, p] @ map the args"
    if "SubprocessRun cmd t r \<in> set (trace_of w (snd (execute_ltsp_command jar c args e w)))" for cmd t r
    using exec_run_recorded[OF that] tmp(1) by auto
  show "r = fst (subprocess_run e cmd t ((files w)(p \<mapsto> c)))"
    if "SubprocessRun cmd t r \<in> set (trace_of w (snd (execute_ltsp_command jar c args e w)))" for cmd t r
    using exec_run_recorded[OF that] tmp(1) by auto
  show "let left =
             (if None \<in> set args then (files w)(p \<mapsto> c)
              else snd (subprocess_run e ([''java'', ''-jar'', jar, p] @ map the args) 30
                          ((files w)(p \<mapsto> c))))
       in (\<exists>mid. trace_of w (snd (execute_ltsp_command jar c args e w)) =
                   [TempFileCreated p, TempFileWritten p c] @ mid @ [OsUnlink p] @
                   (case unlink_raises p e left of
                      None \<Rightarrow> []
                    | Some msg \<Rightarrow>
                        [Logged WARNING (''Failed to delete temporary file '' @ p @ '': '' @ msg)])) \<and>
          files (snd (execute_ltsp_command jar c args e w)) =
            (case unlink_raises p e left of None \<Rightarrow> left(p := None) | Some msg \<Rightarrow> left) \<and>
          (unlink_raises p e left = None \<longrightarrow>
             files (snd (execute_ltsp_command jar c args e w)) p = None)"
  proof (cases "None \<in> set args")
    case True
    then obtain msg where
      ev: "events (snd (execute_ltsp_command jar c args e w)) =
         events w @
         [TempFileCreated p, TempFileWritten p c,
          Logged ERROR (''Error executing command: '' @ msg), OsUnlink p] @
         (case unlink_raises p e ((files w)(p \<mapsto> c)) of
            None \<Rightarrow> []
          | Some m \<Rightarrow> [Logged WARNING (''Failed to delete temporary file '' @ p @ '': '' @ m)])"
      and fl: "files (snd (execute_ltsp_command jar c args e w)) =
            (case unlink_raises p e ((files w)(p \<mapsto> c)) of
               None \<Rightarrow> ((files w)(p \<mapsto> c))(p := None)
             | Some m \<Rightarrow> (files w)(p \<mapsto> c))"
      using exec_none_arg[OF tmp, of args jar c] by blast
    have ex: "\<exists>mid. trace_of w (snd (execute_ltsp_command jar c args e w)) =
                   [TempFileCreated p, TempFileWritten p c] @ mid @ [OsUnlink p] @
                   (case unlink_raises p e ((files w)(p \<mapsto> c)) of
                      None \<Rightarrow> []
                    | Some msg \<Rightarrow>
                        [Logged WARNING (''Failed to delete temporary file '' @ p @ '': '' @ msg)])"
      using trace_of_append[OF ev]
      by (intro exI[of _ "[Logged ERROR (''Error executing command: '' @ msg)]"]) simp
    have gone: "unlink_raises p e ((files w)(p \<mapsto> c)) = None \<longrightarrow>
             files (snd (execute_ltsp_command jar c args e w)) p = None"
      using fl by simp
    show ?thesis by (simp only: Let_def True if_True) (intro conjI ex fl gone)
  next
    case False
    let ?cmd = "[''java'', ''-jar'', jar, p] @ map the args"
    let ?run = "subprocess_run e ?cmd 30 ((files w)(p \<mapsto> c))"
    have ex: "\<exists>mid. trace_of w (snd (execute_ltsp_command jar c args e w)) =
                   [TempFileCreated p, TempFileWritten p c] @ mid @ [OsUnlink p] @
                   (case unlink_raises p e (snd ?run) of
                      None \<Rightarrow> []
                    | Some msg \<Rightarrow>
                        [Logged WARNING (''Failed to delete temporary file '' @ p @ '': '' @ msg)])"
      by (intro exI[of _ "[Logged INFO (''Executing command: '' @ join '' '' ?cmd),
                           SubprocessRun ?cmd 30 (fst ?run)] @
             (case fst ?run of
                OtherException msg \<Rightarrow> [Logged ERROR (''Error executing command: '' @ msg)]
              | _ \<Rightarrow> [])"])
         (simp add: trace_of_append[OF exec_events[OF tmp False, of jar c] ])
    have fl: "files (snd (execute_ltsp_command jar c args e w)) =
            (case unlink_raises p e (snd ?run) of None \<Rightarrow> (snd ?run)(p := None) | Some msg \<Rightarrow> snd ?run)"
      by (rule exec_files[OF tmp False])
    have gone: "unlink_raises p e (snd ?run) = None \<longrightarrow>
             files (snd (execute_ltsp_command jar c args e w)) p = None"
      using fl by simp
    show ?thesis by (simp only: Let_def False if_False) (intro conjI ex fl gone)
  qed
qed

text \<open>
  A progress check that times out, and a parse on an analyzer that removes its input: in
  both the file is gone afterwards; in the second \<^verbatim>\<open>os.unlink\<close> raises and the warning
  is logged.
\<close>

theorem temp_file_fresh_and_unlink_attempted_witness:
  "NamedTemporaryFile ''.lts'' (sample_env (slow_analyzer 45) None) sample_world =
     Inr (''/tmp/tmp2.lts'',
          \<lparr>files = [''/tmp/tmp1.lts'' \<mapsto> ''stale'', ''/tmp/tmp2.lts'' \<mapsto> [] ],
           events = [TempFileCreated ''/tmp/tmp2.lts'']\<rparr>) \<and>
   write_error (sample_env (slow_analyzer 45) None) = None \<and>
   files sample_world ''/tmp/tmp2.lts'' = None \<and>
   fst (execute_ltsp_command ''/app/ltsp.jar'' ''P = (a -> P).''
          [Some ''-c'', Some ''progress'', Some ''-p'', Some ''DEFAULT'']
          (sample_env (slow_analyzer 45) None) sample_world) =
     Inl (HTTPException 408 ''Command execution timed out'') \<and>
   files (snd (execute_ltsp_command ''/app/ltsp.jar'' ''P = (a -> P).''
                 [Some ''-c'', Some ''progress'', Some ''-p'', Some ''DEFAULT'']
                 (sample_env (slow_analyzer 45) None) sample_world)) =
     files sample_world \<and>
   NamedTemporaryFile ''.lts'' (sample_env consuming_analyzer None) sample_world =
     Inr (''/tmp/tmp2.lts'',
          \<lparr>files = [''/tmp/tmp1.lts'' \<mapsto> ''stale'', ''/tmp/tmp2.lts'' \<mapsto> [] ],
           events = [TempFileCreated ''/tmp/tmp2.lts'']\<rparr>) \<and>
   write_error (sample_env consuming_analyzer None) = None \<and>
   (\<exists>mid. trace_of sample_world
            (snd (execute_ltsp_command ''/app/ltsp.jar'' ''A = (a -> A).'' [Some ''-b'', Some ''parse'']
                    (sample_env consuming_analyzer None) sample_world)) =
          [TempFileCreated ''/tmp/tmp2.lts'', TempFileWritten ''/tmp/tmp2.lts'' ''A = (a -> A).''] @ mid @
          [OsUnlink ''/tmp/tmp2.lts'',
           Logged WARNING
             (''Failed to delete temporary file /tmp/tmp2.lts: [Errno 2] No such file or directory: '' @
              [CHR 0x27] @ ''/tmp/tmp2.lts'' @ [CHR 0x27])]) \<and>
   files (snd (execute_ltsp_command ''/app/ltsp.jar'' ''A = (a -> A).'' [Some ''-b'', Some ''parse'']
                 (sample_env consuming_analyzer None) sample_world)) =
     files sample_world"
  (is "?t1 \<and> ?w1 \<and> ?fresh \<and> ?r1 \<and> ?f1 \<and> ?t2 \<and> ?w2 \<and> ?tr2 \<and> ?f2")
proof -
  have t1: "?t1 \<and> ?w1" using sample_tmp[of "slow_analyzer 45" None] by simp
  have t2: "?t2 \<and> ?w2" using sample_tmp[of consuming_analyzer None] by simp
  have same: "[''/tmp/tmp1.lts'' \<mapsto> ''stale'', ''/tmp/tmp2.lts'' \<mapsto> x](''/tmp/tmp2.lts'' := None) =
      [''/tmp/tmp1.lts'' \<mapsto> ''stale'']" for x :: string
    by (rule ext) simp
  note a = temp_file_fresh_and_unlink_attempted[THEN conjunct2, rule_format, OF t1,
        where jar="''/app/ltsp.jar''" and c="''P = (a -> P).''"
          and args="[Some ''-c'', Some ''progress'', Some ''-p'', Some ''DEFAULT'']"]
  note b = temp_file_fresh_and_unlink_attempted[THEN conjunct2, rule_format, OF t2,
        where jar="''/app/ltsp.jar''" and c="''A = (a -> A).''"
          and args="[Some ''-b'', Some ''parse'']"]
  have fresh: ?fresh using a by simp
  have f1: ?f1
    using a by (simp add: Let_def sample_env_def sample_world_def slow_analyzer_def unlink_raises_def same)
  have r1: ?r1 by (simp add: run_defs slow_analyzer_def)
  have tr2: ?tr2
    using b by (simp add: Let_def sample_env_def sample_world_def consuming_analyzer_def unlink_raises_def)
  have f2: ?f2
    using b by (simp add: Let_def sample_env_def sample_world_def consuming_analyzer_def unlink_raises_def same)
  show ?thesis using t1 t2 fresh r1 f1 tr2 f2 by (intro conjI) simp_all
qed

subsection \<open>Pipeline order\<close>

text \<open>
  C6 says that the temp file is deleted before the response is returned. Here the analyzer
  reports a deadlock, \<^verbatim>\<open>os.unlink\<close> raises, a warning is logged, and the response is returned
  while the file still exists.
\<close>

theorem response_returned_before_deletion_counterexample:
  "trace_of sample_world
     (snd (execute_ltsp_command ''/app/ltsp.jar'' ''P = (a -> P).''
             [Some ''-c'', Some ''safety'', Some ''-p'', Some ''P'']
             (sample_env (echo_analyzer 1 ''deadlock'') (Some ''Device or resource busy'')) sample_world)) =
     [TempFileCreated ''/tmp/tmp2.lts'',
      TempFileWritten ''/tmp/tmp2.lts'' ''P = (a -> P).'',
      Logged INFO ''Executing command: java -jar /app/ltsp.jar /tmp/tmp2.lts -c safety -p P'',
      SubprocessRun [''java'', ''-jar'', ''/app/ltsp.jar'', ''/tmp/tmp2.lts'', ''-c'', ''safety'', ''-p'', ''P''] 30
        (Completed 1 ''P = (a -> P).'' ''deadlock''),
      OsUnlink ''/tmp/tmp2.lts'',
      Logged WARNING ''Failed to delete temporary file /tmp/tmp2.lts: Device or resource busy''] \<and>
   fst (execute_ltsp_command ''/app/ltsp.jar'' ''P = (a -> P).''
          [Some ''-c'', Some ''safety'', Some ''-p'', Some ''P'']
          (sample_env (echo_analyzer 1 ''deadlock'') (Some ''Device or resource busy'')) sample_world) =
     Inr \<lparr>success = False, output' = ''P = (a -> P).'', error = Some ''deadlock''\<rparr> \<and>
   files (snd (execute_ltsp_command ''/app/ltsp.jar'' ''P = (a -> P).''
                 [Some ''-c'', Some ''safety'', Some ''-p'', Some ''P'']
                 (sample_env (echo_analyzer 1 ''deadlock'') (Some ''Device or resource busy'')) sample_world))
       ''/tmp/tmp2.lts'' = Some ''P = (a -> P).''"
  by (simp add: run_defs)

text \<open>
  C6, amended. Every call whose temp file was written and whose arguments are strings
  runs the analyzer, and every call that runs it follows one linear pipeline, in this order:
  the specification is written to a fresh temp file; the analyzer is run once, with timeout
  30, on \<^verbatim>\<open>java -jar <jar> <that file> <args>\<close>, starting on files in which that file holds
  the specification; its result is captured (an unexpected exception is logged);
  \<^verbatim>\<open>os.unlink\<close> is then called on the temp file, which deletes it unless the call raises, in
  which case a warning is logged; only then does the call return. Every \<open>LTSResponse\<close>
  comes out of this pipeline, from a run that completed.
\<close>

theorem request_pipeline_in_order:
  "(\<forall>cmd t r. SubprocessRun cmd t r \<in> set (trace_of w (snd (execute_ltsp_command jar c args e w))) \<longrightarrow>
      (\<exists>p flags.
          args = map Some flags \<and> cmd = [''java'', ''-jar'', jar, p] @ flags \<and> t = 30 \<and>
          files w p = None \<and>
          r = fst (subprocess_run e cmd 30 ((files w)(p \<mapsto> c))) \<and>
          trace_of w (snd (execute_ltsp_command jar c args e w)) =
            [TempFileCreated p, TempFileWritten p c,
             Logged INFO (''Executing command: '' @ join '' '' cmd),
             SubprocessRun cmd 30 r] @
            (case r of
               OtherException msg \<Rightarrow> [Logged ERROR (''Error executing command: '' @ msg)]
             | _ \<Rightarrow> []) @
            [OsUnlink p] @
            (case unlink_raises p e (snd (subprocess_run e cmd 30 ((files w)(p \<mapsto> c)))) of
               None \<Rightarrow> []
             | Some msg \<Rightarrow> [Logged WARNING (''Failed to delete temporary file '' @ p @ '': '' @ msg)]) \<and>
          files (snd (execute_ltsp_command jar c args e w)) =
            (case unlink_raises p e (snd (subprocess_run e cmd 30 ((files w)(p \<mapsto> c)))) of
               None \<Rightarrow> (snd (subprocess_run e cmd 30 ((files w)(p \<mapsto> c))))(p := None)
             | Some msg \<Rightarrow> snd (subprocess_run e cmd 30 ((files w)(p \<mapsto> c)))))) \<and>
   (\<forall>resp. fst (execute_ltsp_command jar c args e w) = Inr resp \<longrightarrow>
      (\<exists>cmd rc out err.
          SubprocessRun cmd 30 (Completed rc out err)
            \<in> set (trace_of w (snd (execute_ltsp_command jar c args e w))) \<and>
          resp = \<lparr>success = (rc = 0), output' = out, error = (if err \<noteq> [] then Some err else None)\<rparr>)) \<and>
   (\<forall>p w1. NamedTemporaryFile ''.lts'' e w = Inr (p, w1) \<and> write_error e = None \<and> None \<notin> set args \<longrightarrow>
      SubprocessRun ([''java'', ''-jar'', jar, p] @ map the args) 30
        (fst (subprocess_run e ([''java'', ''-jar'', jar, p] @ map the args) 30 ((files w)(p \<mapsto> c))))
      \<in> set (trace_of w (snd (execute_ltsp_command jar c args e w))))"
proof (intro conjI allI impI; (elim conjE)?)
  fix cmd t r
  assume a: "SubprocessRun cmd t r \<in> set (trace_of w (snd (execute_ltsp_command jar c args e w)))"
  obtain p w1 where run: "NamedTemporaryFile ''.lts'' e w = Inr (p, w1)" "write_error e = None"
      "None \<notin> set args"
    and cmd: "cmd = [''java'', ''-jar'', jar, p] @ map the args" and t: "t = 30"
    and r: "r = fst (subprocess_run e cmd 30 ((files w)(p \<mapsto> c)))"
    using exec_run_recorded[OF a] by blast
  have fresh: "files w p = None" using NamedTemporaryFile_Inr[OF run(1)] by simp
  have tr: "trace_of w (snd (execute_ltsp_command jar c args e w)) =
            [TempFileCreated p, TempFileWritten p c,
             Logged INFO (''Executing command: '' @ join '' '' cmd),
             SubprocessRun cmd 30 r] @
            (case r of
               OtherException msg \<Rightarrow> [Logged ERROR (''Error executing command: '' @ msg)]
             | _ \<Rightarrow> []) @
            [OsUnlink p] @
            (case unlink_raises p e (snd (subprocess_run e cmd 30 ((files w)(p \<mapsto> c)))) of
               None \<Rightarrow> []
             | Some msg \<Rightarrow> [Logged WARNING (''Failed to delete temporary file '' @ p @ '': '' @ msg)])"
    unfolding r cmd by (rule trace_of_append[OF exec_events[OF run] ])
  have fl: "files (snd (execute_ltsp_command jar c args e w)) =
            (case unlink_raises p e (snd (subprocess_run e cmd 30 ((files w)(p \<mapsto> c)))) of
               None \<Rightarrow> (snd (subprocess_run e cmd 30 ((files w)(p \<mapsto> c))))(p := None)
             | Some msg \<Rightarrow> snd (subprocess_run e cmd 30 ((files w)(p \<mapsto> c))))"
    unfolding cmd by (rule exec_files[OF run])
  show "\<exists>p flags.
          args = map Some flags \<and> cmd = [''java'', ''-jar'', jar, p] @ flags \<and> t = 30 \<and>
          files w p = None \<and>
          r = fst (subprocess_run e cmd 30 ((files w)(p \<mapsto> c))) \<and>
          trace_of w (snd (execute_ltsp_command jar c args e w)) =
            [TempFileCreated p, TempFileWritten p c,
             Logged INFO (''Executing command: '' @ join '' '' cmd),
             SubprocessRun cmd 30 r] @
            (case r of
               OtherException msg \<Rightarrow> [Logged ERROR (''Error executing command: '' @ msg)]
             | _ \<Rightarrow> []) @
            [OsUnlink p] @
            (case unlink_raises p e (snd (subprocess_run e cmd 30 ((files w)(p \<mapsto> c)))) of
               None \<Rightarrow> []
             | Some msg \<Rightarrow> [Logged WARNING (''Failed to delete temporary file '' @ p @ '': '' @ msg)]) \<and>
          files (snd (execute_ltsp_command jar c args e w)) =
            (case unlink_raises p e (snd (subprocess_run e cmd 30 ((files w)(p \<mapsto> c)))) of
               None \<Rightarrow> (snd (subprocess_run e cmd 30 ((files w)(p \<mapsto> c))))(p := None)
             | Some msg \<Rightarrow> snd (subprocess_run e cmd 30 ((files w)(p \<mapsto> c))))"
    using map_Some_the[OF run(3), symmetric] cmd t fresh r tr fl
    by - (rule exI[of _ p], rule exI[of _ "map the args"], (intro conjI; assumption))
next
  fix resp
  assume a: "fst (execute_ltsp_command jar c args e w) = Inr resp"
  obtain p w1 rc out err where run: "NamedTemporaryFile ''.lts'' e w = Inr (p, w1)"
      "write_error e = None" "None \<notin> set args"
    and r: "fst (subprocess_run e ([''java'', ''-jar'', jar, p] @ map the args) 30 ((files w)(p \<mapsto> c))) =
             Completed rc out err"
    and resp: "resp = \<lparr>success = (rc = 0), output' = out, error = (if err \<noteq> [] then Some err else None)\<rparr>"
    using exec_response_from_run[OF a] by blast
  have mem: "SubprocessRun ([''java'', ''-jar'', jar, p] @ map the args) 30 (Completed rc out err)
          \<in> set (trace_of w (snd (execute_ltsp_command jar c args e w)))"
    using exec_run_member[OF run, of jar c] r by simp
  show "\<exists>cmd rc out err.
          SubprocessRun cmd 30 (Completed rc out err)
            \<in> set (trace_of w (snd (execute_ltsp_command jar c args e w))) \<and>
          resp = \<lparr>success = (rc = 0), output' = out, error = (if err \<noteq> [] then Some err else None)\<rparr>"
    using mem resp
    by - (rule exI[of _ "[''java'', ''-jar'', jar, p] @ map the args"], rule exI[of _ rc],
          rule exI[of _ out], rule exI[of _ err], simp)
next
  fix p w1
  assume "NamedTemporaryFile ''.lts'' e w = Inr (p, w1)" "write_error e = None" "None \<notin> set args"
  then show "SubprocessRun ([''java'', ''-jar'', jar, p] @ map the args) 30
        (fst (subprocess_run e ([''java'', ''-jar'', jar, p] @ map the args) 30 ((files w)(p \<mapsto> c))))
      \<in> set (trace_of w (snd (execute_ltsp_command jar c args e w)))"
    by (rule exec_run_member)
qed

text \<open>A compose request that goes through the whole pipeline.\<close>

theorem request_pipeline_in_order_witness:
  "SubprocessRun [''java'', ''-jar'', ''/app/ltsp.jar'', ''/tmp/tmp2.lts'', ''-b'', ''compose'', ''-p'', ''SYS''] 30
       (Completed 0 ''||SYS = (P || Q).'' [])
     \<in> set (trace_of sample_world
              (snd (execute_ltsp_command ''/app/ltsp.jar'' ''||SYS = (P || Q).''
                 [Some ''-b'', Some ''compose'', Some ''-p'', Some ''SYS'']
                 (sample_env (echo_analyzer 0 []) None) sample_world))) \<and>
   (\<exists>p flags.
      [Some ''-b'', Some ''compose'', Some ''-p'', Some ''SYS''] = map Some flags \<and>
      [''java'', ''-jar'', ''/app/ltsp.jar'', ''/tmp/tmp2.lts'', ''-b'', ''compose'', ''-p'', ''SYS''] =
        [''java'', ''-jar'', ''/app/ltsp.jar'', p] @ flags \<and>
      files sample_world p = None \<and>
      trace_of sample_world
        (snd (execute_ltsp_command ''/app/ltsp.jar'' ''||SYS = (P || Q).''
           [Some ''-b'', Some ''compose'', Some ''-p'', Some ''SYS'']
           (sample_env (echo_analyzer 0 []) None) sample_world)) =
        [TempFileCreated p, TempFileWritten p ''||SYS = (P || Q).'',
         Logged INFO ''Executing command: java -jar /app/ltsp.jar /tmp/tmp2.lts -b compose -p SYS'',
         SubprocessRun [''java'', ''-jar'', ''/app/ltsp.jar'', ''/tmp/tmp2.lts'', ''-b'', ''compose'', ''-p'', ''SYS'']
           30 (Completed 0 ''||SYS = (P || Q).'' []),
         OsUnlink p] \<and>
      files (snd (execute_ltsp_command ''/app/ltsp.jar'' ''||SYS = (P || Q).''
           [Some ''-b'', Some ''compose'', Some ''-p'', Some ''SYS'']
           (sample_env (echo_analyzer 0 []) None) sample_world)) ''/tmp/tmp2.lts'' = None)"
  (is "?h \<and> ?c")
proof -
  have h: ?h by (simp add: run_defs)
  from request_pipeline_in_order[THEN conjunct1, rule_format, OF h]
  have ?c
    by (simp add: sample_env_def echo_analyzer_def sample_world_def unlink_raises_def)
  with h show ?thesis by (intro conjI)
qed

subsection \<open>Statelessness\<close>

text \<open>
  C7. Request handling is stateless and deterministic in its inputs: two invocations of the
  same endpoint with the same body, whose subprocess runs completed with the same exit
  status, stdout and stderr, give equal responses, whatever requests were served before
  each of them (the worlds \<open>w1\<close> and \<open>w2\<close> are reached through arbitrary histories) and
  whatever else the environment did (temp names, unlink).
\<close>

theorem response_is_function_of_request_and_process_result:
  assumes "w1 = snd (serve jar history1 start1)"
    and "w2 = snd (serve jar history2 start2)"
    and "SubprocessRun cmd1 t1 (Completed rc out err)
           \<in> set (trace_of w1 (snd (app_post jar route b e1 w1)))"
    and "SubprocessRun cmd2 t2 (Completed rc out err)
           \<in> set (trace_of w2 (snd (app_post jar route b e2 w2)))"
  shows "fst (app_post jar route b e1 w1) = fst (app_post jar route b e2 w2)"
proof (cases rule: app_post_cases[where jar=jar and route=route and b=b])
  case invalid
  then show ?thesis by simp
next
  case unknown
  then show ?thesis by simp
next
  case (exec c args)
  show ?thesis
    using exec_completed[of cmd1 t1 rc out err w1 jar c args e1]
      exec_completed[of cmd2 t2 rc out err w2 jar c args e2] assms(3,4)
    by (simp add: exec)
qed

text \<open>
  The same safety check after a served request and on a fresh server: the temp files
  differ, one unlink fails, the responses agree.
\<close>

theorem response_is_function_of_request_and_process_result_witness:
  "SubprocessRun [''java'', ''-jar'', ''/app/ltsp.jar'', ''/tmp/tmp2.lts'', ''-c'', ''safety'', ''-p'', ''P''] 30
       (Completed 1 ''P = (a -> P).'' ''deadlock'')
     \<in> set (trace_of
              (snd (serve ''/app/ltsp.jar''
                      [(''/parse'',
                        \<lparr>content_field = Str ''Q = (b -> Q).'', process_field = Omitted, property_field = Omitted\<rparr>,
                        sample_env (echo_analyzer 0 []) None)]
                      sample_world))
              (snd (app_post ''/app/ltsp.jar'' ''/check/safety''
                      \<lparr>content_field = Str ''P = (a -> P).'', process_field = Str ''P'', property_field = Omitted\<rparr>
                      (sample_env (echo_analyzer 1 ''deadlock'') None)
                      (snd (serve ''/app/ltsp.jar''
                              [(''/parse'',
                                \<lparr>content_field = Str ''Q = (b -> Q).'', process_field = Omitted, property_field = Omitted\<rparr>,
                                sample_env (echo_analyzer 0 []) None)]
                              sample_world))))) \<and>
   SubprocessRun [''java'', ''-jar'', ''/app/ltsp.jar'', ''/tmp/tmp1.lts'', ''-c'', ''safety'', ''-p'', ''P''] 30
       (Completed 1 ''P = (a -> P).'' ''deadlock'')
     \<in> set (trace_of
              (snd (serve ''/app/ltsp.jar'' [] \<lparr>files = Map.empty, events = []\<rparr>))
              (snd (app_post ''/app/ltsp.jar'' ''/check/safety''
                      \<lparr>content_field = Str ''P = (a -> P).'', process_field = Str ''P'', property_field = Omitted\<rparr>
                      (sample_env (echo_analyzer 1 ''deadlock'') (Some ''busy''))
                      (snd (serve ''/app/ltsp.jar'' [] \<lparr>files = Map.empty, events = []\<rparr>))))) \<and>
   fst (app_post ''/app/ltsp.jar'' ''/check/safety''
          \<lparr>content_field = Str ''P = (a -> P).'', process_field = Str ''P'', property_field = Omitted\<rparr>
          (sample_env (echo_analyzer 1 ''deadlock'') None)
          (snd (serve ''/app/ltsp.jar''
                  [(''/parse'',
                    \<lparr>content_field = Str ''Q = (b -> Q).'', process_field = Omitted, property_field = Omitted\<rparr>,
                    sample_env (echo_analyzer 0 []) None)]
                  sample_world))) =
   fst (app_post ''/app/ltsp.jar'' ''/check/safety''
          \<lparr>content_field = Str ''P = (a -> P).'', process_field = Str ''P'', property_field = Omitted\<rparr>
          (sample_env (echo_analyzer 1 ''deadlock'') (Some ''busy''))
          (snd (serve ''/app/ltsp.jar'' [] \<lparr>files = Map.empty, events = []\<rparr>)))"
  (is "?m1 \<and> ?m2 \<and> ?eq")
proof -
  have m1: ?m1
    by (simp add: run_defs app_post_routes endpoint_defs LTSRequest_validate_def)
  have m2: ?m2
    by (simp add: run_defs app_post_routes endpoint_defs LTSRequest_validate_def)
  have ?eq
    by (rule response_is_function_of_request_and_process_result[OF refl refl m1 m2])
  then show ?thesis using m1 m2 by (intro conjI)
qed

subsection \<open>Health probe\<close>

text \<open>
  C5. The health probe checks the jar on disk and the Java runtime independently:
  \<open>ltsp_jar_exists\<close> is the result of \<^verbatim>\<open>os.path.exists\<close> on the jar path,
  \<open>java_available\<close> says whether \<^verbatim>\<open>java -version\<close> could be run without an exception
  (the probe runs exactly that command, with a 5 second timeout), and the two are
  separate fields: each can be true while the other is false.
\<close>

theorem health_reports_jar_and_java_separately:
  "ltsp_jar_exists (fst (health_check jar e w)) = os_path_exists jar w \<and>
   java_available (fst (health_check jar e w)) =
     (\<exists>rc out err. fst (subprocess_run e [''java'', ''-version''] 5 (files w)) = Completed rc out err) \<and>
   events (snd (health_check jar e w)) =
     events w @
       [SubprocessRun [''java'', ''-version''] 5 (fst (subprocess_run e [''java'', ''-version''] 5 (files w)))] \<and>
   (\<exists>e1 w1. ltsp_jar_exists (fst (health_check jar e1 w1)) \<and> \<not> java_available (fst (health_check jar e1 w1))) \<and>
   (\<exists>e2 w2. \<not> ltsp_jar_exists (fst (health_check jar e2 w2)) \<and> java_available (fst (health_check jar e2 w2)))"
proof -
  let ?down = "\<lparr>temp_candidates = [], write_error = None,
                 subprocess_run = (\<lambda>cmd t fs. (FileNotFoundError, fs)), unlink_error = None\<rparr>"
  let ?up = "\<lparr>temp_candidates = [], write_error = None,
               subprocess_run = (\<lambda>cmd t fs. (Completed 0 [] ''openjdk 17'', fs)), unlink_error = None\<rparr>"
  have a: "ltsp_jar_exists (fst (health_check jar e w)) = os_path_exists jar w"
    by (simp add: health_check_def Let_def split: prod.splits)
  have b: "java_available (fst (health_check jar e w)) =
     (\<exists>rc out err. fst (subprocess_run e [''java'', ''-version''] 5 (files w)) = Completed rc out err)"
    by (simp add: health_check_def Let_def split: run_outcome.splits prod.splits)
  have c: "events (snd (health_check jar e w)) =
     events w @
       [SubprocessRun [''java'', ''-version''] 5 (fst (subprocess_run e [''java'', ''-version''] 5 (files w)))]"
    by (simp add: health_check_def Let_def emit_def split: prod.splits)
  have d: "ltsp_jar_exists (fst (health_check jar ?down \<lparr>files = [jar \<mapsto> ''jar''], events = []\<rparr>)) \<and>
           \<not> java_available (fst (health_check jar ?down \<lparr>files = [jar \<mapsto> ''jar''], events = []\<rparr>))"
    by (simp add: health_check_def Let_def os_path_exists_def)
  have f: "\<not> ltsp_jar_exists (fst (health_check jar ?up \<lparr>files = Map.empty, events = []\<rparr>)) \<and>
           java_available (fst (health_check jar ?up \<lparr>files = Map.empty, events = []\<rparr>))"
    by (simp add: health_check_def Let_def os_path_exists_def)
  show ?thesis using a b c d f by blast
qed

text \<open>
  C10. The \<open>status\<close> field of the health response is \<^verbatim>\<open>"healthy"\<close> if and only if both
  \<open>ltsp_jar_exists\<close> and \<open>java_available\<close> are true, and \<^verbatim>\<open>"unhealthy"\<close> otherwise.
\<close>

theorem health_status_aggregates_both_checks:
  "(status (fst (health_check jar e w)) = ''healthy'' \<longleftrightarrow>
      ltsp_jar_exists (fst (health_check jar e w)) \<and> java_available (fst (health_check jar e w))) \<and>
   (status (fst (health_check jar e w)) = ''unhealthy'' \<longleftrightarrow>
      \<not> (ltsp_jar_exists (fst (health_check jar e w)) \<and> java_available (fst (health_check jar e w))))"
  by (simp add: health_check_def Let_def split: prod.splits)

end
